theory Spec2Isabelle
  imports Complex_Main "HOL-Library.Char_ord" "HOL-Library.List_Lexorder"
begin

section \<open>Python strings\<close>

text \<open>
  A Python \<open>str\<close> is modelled as a \<open>string\<close> holding the UTF-8 bytes of the text, which
  is what the tool writes to disk. All text the analysed functions inspect is ASCII; a
  code point beyond ASCII is a run of bytes above \<open>0x7F\<close>, which the model treats as
  caseless, not whitespace and not a digit.
\<close>

abbreviation nl :: char where
  "nl \<equiv> CHR 0x0A"

text \<open>\<open>str.lower()\<close> on the ASCII letters.\<close>

definition lower_char :: "char \<Rightarrow> char" where
  "lower_char c =
     (case map_of (zip ''ABCDEFGHIJKLMNOPQRSTUVWXYZ'' ''abcdefghijklmnopqrstuvwxyz'') c of
        Some d \<Rightarrow> d
      | None \<Rightarrow> c)"

definition py_lower :: "string \<Rightarrow> string" where
  "py_lower s = map lower_char s"

text \<open>\<open>sep.join(xs)\<close>.\<close>

fun py_join :: "string \<Rightarrow> string list \<Rightarrow> string" where
  "py_join sep [] = []"
| "py_join sep [x] = x"
| "py_join sep (x # y # ys) = x @ sep @ py_join sep (y # ys)"

text \<open>\<open>s.split('\n')\<close>: the lines of a text; never the empty list.\<close>

fun split_lines :: "string \<Rightarrow> string list" where
  "split_lines [] = [ [] ]"
| "split_lines (c # cs) =
     (if c = nl then [] # split_lines cs
      else (case split_lines cs of [] \<Rightarrow> [ [c] ] | l # ls \<Rightarrow> (c # l) # ls))"

text \<open>\<open>sub in s\<close>, \<open>s.startswith(p)\<close> and \<open>s.endswith(p)\<close> on strings.\<close>

fun startswith :: "string \<Rightarrow> string \<Rightarrow> bool" where
  "startswith s [] = True"
| "startswith [] (p # ps) = False"
| "startswith (c # cs) (p # ps) = (c = p \<and> startswith cs ps)"

fun contains :: "string \<Rightarrow> string \<Rightarrow> bool" where
  "contains [] sub = (sub = [])"
| "contains (c # cs) sub = (startswith (c # cs) sub \<or> contains cs sub)"

definition endswith :: "string \<Rightarrow> string \<Rightarrow> bool" where
  "endswith s p = startswith (rev s) (rev p)"

text \<open>
  The characters \<open>str.strip()\<close>, \<open>str.isspace()\<close> and the regex class \<open>\s\<close> treat as
  whitespace, and the decimal digits of \<open>\d\<close>, within ASCII.
\<close>

definition is_space :: "char \<Rightarrow> bool" where
  "is_space c = (c \<in> set [CHR 0x09, CHR 0x0A, CHR 0x0B, CHR 0x0C, CHR 0x0D,
                            CHR 0x1C, CHR 0x1D, CHR 0x1E, CHR 0x1F, CHR 0x20])"

definition is_digit :: "char \<Rightarrow> bool" where
  "is_digit c = (c \<in> set ''0123456789'')"

definition py_strip :: "string \<Rightarrow> string" where
  "py_strip s = rev (dropWhile is_space (rev (dropWhile is_space s)))"

text \<open>
  A triple-quoted template whose first line follows the opening quotes directly: a line
  break, then every line of the template followed by a line break.
\<close>

definition py_block :: "string list \<Rightarrow> string" where
  "py_block ls = nl # concat (map (\<lambda>l. l @ [nl]) ls)"

text \<open>\<open>str(b)\<close> of a \<open>bool\<close>, as an f-string renders it.\<close>

definition str_of_bool :: "bool \<Rightarrow> string" where
  "str_of_bool b = (if b then ''True'' else ''False'')"

text \<open>Truthiness of a string: non-empty.\<close>

abbreviation truthy :: "'a list \<Rightarrow> bool" where
  "truthy xs \<equiv> xs \<noteq> []"

definition msg_configure_build :: string where
  \<comment> \<open>the UTF-8 bytes of the Russian for "Configure the build commands for your project"\<close>
  "msg_configure_build =
     [CHR 0xD0, CHR 0x9D, CHR 0xD0, CHR 0xB0, CHR 0xD1, CHR 0x81, CHR 0xD1, CHR 0x82,
      CHR 0xD1, CHR 0x80, CHR 0xD0, CHR 0xBE, CHR 0xD0, CHR 0xB9, CHR 0xD1, CHR 0x82,
      CHR 0xD0, CHR 0xB5, CHR 0x20, CHR 0xD0, CHR 0xBA, CHR 0xD0, CHR 0xBE, CHR 0xD0,
      CHR 0xBC, CHR 0xD0, CHR 0xB0, CHR 0xD0, CHR 0xBD, CHR 0xD0, CHR 0xB4, CHR 0xD1,
      CHR 0x8B, CHR 0x20, CHR 0xD1, CHR 0x81, CHR 0xD0, CHR 0xB1, CHR 0xD0, CHR 0xBE,
      CHR 0xD1, CHR 0x80, CHR 0xD0, CHR 0xBA, CHR 0xD0, CHR 0xB8, CHR 0x20, CHR 0xD0,
      CHR 0xB4, CHR 0xD0, CHR 0xBB, CHR 0xD1, CHR 0x8F, CHR 0x20, CHR 0xD0, CHR 0xB2,
      CHR 0xD0, CHR 0xB0, CHR 0xD1, CHR 0x88, CHR 0xD0, CHR 0xB5, CHR 0xD0, CHR 0xB3,
      CHR 0xD0, CHR 0xBE, CHR 0x20, CHR 0xD0, CHR 0xBF, CHR 0xD1, CHR 0x80, CHR 0xD0,
      CHR 0xBE, CHR 0xD0, CHR 0xB5, CHR 0xD0, CHR 0xBA, CHR 0xD1, CHR 0x82, CHR 0xD0,
      CHR 0xB0]"

definition msg_configure_tests :: string where
  \<comment> \<open>the UTF-8 bytes of the Russian for "Configure the test commands"\<close>
  "msg_configure_tests =
     [CHR 0xD0, CHR 0x9D, CHR 0xD0, CHR 0xB0, CHR 0xD1, CHR 0x81, CHR 0xD1, CHR 0x82,
      CHR 0xD1, CHR 0x80, CHR 0xD0, CHR 0xBE, CHR 0xD0, CHR 0xB9, CHR 0xD1, CHR 0x82,
      CHR 0xD0, CHR 0xB5, CHR 0x20, CHR 0xD0, CHR 0xBA, CHR 0xD0, CHR 0xBE, CHR 0xD0,
      CHR 0xBC, CHR 0xD0, CHR 0xB0, CHR 0xD0, CHR 0xBD, CHR 0xD0, CHR 0xB4, CHR 0xD1,
      CHR 0x8B, CHR 0x20, CHR 0xD1, CHR 0x82, CHR 0xD0, CHR 0xB5, CHR 0xD1, CHR 0x81,
      CHR 0xD1, CHR 0x82, CHR 0xD0, CHR 0xB8, CHR 0xD1, CHR 0x80, CHR 0xD0, CHR 0xBE,
      CHR 0xD0, CHR 0xB2, CHR 0xD0, CHR 0xB0, CHR 0xD0, CHR 0xBD, CHR 0xD0, CHR 0xB8,
      CHR 0xD1, CHR 0x8F]"

definition msg_configure_quality :: string where
  \<comment> \<open>the UTF-8 bytes of the Russian for "Configure the code quality check"\<close>
  "msg_configure_quality =
     [CHR 0xD0, CHR 0x9D, CHR 0xD0, CHR 0xB0, CHR 0xD1, CHR 0x81, CHR 0xD1, CHR 0x82,
      CHR 0xD1, CHR 0x80, CHR 0xD0, CHR 0xBE, CHR 0xD0, CHR 0xB9, CHR 0xD1, CHR 0x82,
      CHR 0xD0, CHR 0xB5, CHR 0x20, CHR 0xD0, CHR 0xBF, CHR 0xD1, CHR 0x80, CHR 0xD0,
      CHR 0xBE, CHR 0xD0, CHR 0xB2, CHR 0xD0, CHR 0xB5, CHR 0xD1, CHR 0x80, CHR 0xD0,
      CHR 0xBA, CHR 0xD1, CHR 0x83, CHR 0x20, CHR 0xD0, CHR 0xBA, CHR 0xD0, CHR 0xB0,
      CHR 0xD1, CHR 0x87, CHR 0xD0, CHR 0xB5, CHR 0xD1, CHR 0x81, CHR 0xD1, CHR 0x82,
      CHR 0xD0, CHR 0xB2, CHR 0xD0, CHR 0xB0, CHR 0x20, CHR 0xD0, CHR 0xBA, CHR 0xD0,
      CHR 0xBE, CHR 0xD0, CHR 0xB4, CHR 0xD0, CHR 0xB0]"

definition msg_packaging :: string where
  \<comment> \<open>the UTF-8 bytes of the Russian for "Packaging artifacts for deployment"\<close>
  "msg_packaging =
     [CHR 0xD0, CHR 0xA3, CHR 0xD0, CHR 0xBF, CHR 0xD0, CHR 0xB0, CHR 0xD0, CHR 0xBA,
      CHR 0xD0, CHR 0xBE, CHR 0xD0, CHR 0xB2, CHR 0xD0, CHR 0xBA, CHR 0xD0, CHR 0xB0,
      CHR 0x20, CHR 0xD0, CHR 0xB0, CHR 0xD1, CHR 0x80, CHR 0xD1, CHR 0x82, CHR 0xD0,
      CHR 0xB5, CHR 0xD1, CHR 0x84, CHR 0xD0, CHR 0xB0, CHR 0xD0, CHR 0xBA, CHR 0xD1,
      CHR 0x82, CHR 0xD0, CHR 0xBE, CHR 0xD0, CHR 0xB2, CHR 0x20, CHR 0xD0, CHR 0xB4,
      CHR 0xD0, CHR 0xBB, CHR 0xD1, CHR 0x8F, CHR 0x20, CHR 0xD1, CHR 0x80, CHR 0xD0,
      CHR 0xB0, CHR 0xD0, CHR 0xB7, CHR 0xD0, CHR 0xB2, CHR 0xD0, CHR 0xB5, CHR 0xD1,
      CHR 0x80, CHR 0xD1, CHR 0x82, CHR 0xD1, CHR 0x8B, CHR 0xD0, CHR 0xB2, CHR 0xD0,
      CHR 0xB0, CHR 0xD0, CHR 0xBD, CHR 0xD0, CHR 0xB8, CHR 0xD1, CHR 0x8F]"

definition msg_uploading_to :: string where
  \<comment> \<open>the UTF-8 bytes of the Russian for "Uploading artifacts to"\<close>
  "msg_uploading_to =
     [CHR 0xD0, CHR 0x97, CHR 0xD0, CHR 0xB0, CHR 0xD0, CHR 0xB3, CHR 0xD1, CHR 0x80,
      CHR 0xD1, CHR 0x83, CHR 0xD0, CHR 0xB7, CHR 0xD0, CHR 0xBA, CHR 0xD0, CHR 0xB0,
      CHR 0x20, CHR 0xD0, CHR 0xB0, CHR 0xD1, CHR 0x80, CHR 0xD1, CHR 0x82, CHR 0xD0,
      CHR 0xB5, CHR 0xD1, CHR 0x84, CHR 0xD0, CHR 0xB0, CHR 0xD0, CHR 0xBA, CHR 0xD1,
      CHR 0x82, CHR 0xD0, CHR 0xBE, CHR 0xD0, CHR 0xB2, CHR 0x20, CHR 0xD0, CHR 0xB2]"

definition msg_deploying_to :: string where
  \<comment> \<open>the UTF-8 bytes of the Russian for "Deploying to"\<close>
  "msg_deploying_to =
     [CHR 0xD0, CHR 0xA0, CHR 0xD0, CHR 0xB0, CHR 0xD0, CHR 0xB7, CHR 0xD0, CHR 0xB2,
      CHR 0xD0, CHR 0xB5, CHR 0xD1, CHR 0x80, CHR 0xD1, CHR 0x82, CHR 0xD1, CHR 0x8B,
      CHR 0xD0, CHR 0xB2, CHR 0xD0, CHR 0xB0, CHR 0xD0, CHR 0xBD, CHR 0xD0, CHR 0xB8,
      CHR 0xD0, CHR 0xB5, CHR 0x20, CHR 0xD0, CHR 0xB2]"

definition msg_environment :: string where
  \<comment> \<open>the UTF-8 bytes of the Russian for "environment"\<close>
  "msg_environment =
     [CHR 0xD0, CHR 0xBE, CHR 0xD0, CHR 0xBA, CHR 0xD1, CHR 0x80, CHR 0xD1, CHR 0x83,
      CHR 0xD0, CHR 0xB6, CHR 0xD0, CHR 0xB5, CHR 0xD0, CHR 0xBD, CHR 0xD0, CHR 0xB8,
      CHR 0xD0, CHR 0xB5]"

definition msg_deploying_without :: string where
  \<comment> \<open>the UTF-8 bytes of the Russian for "Deploying without"\<close>
  "msg_deploying_without =
     [CHR 0xD0, CHR 0xA0, CHR 0xD0, CHR 0xB0, CHR 0xD0, CHR 0xB7, CHR 0xD0, CHR 0xB2,
      CHR 0xD0, CHR 0xB5, CHR 0xD1, CHR 0x80, CHR 0xD1, CHR 0x82, CHR 0xD1, CHR 0x8B,
      CHR 0xD0, CHR 0xB2, CHR 0xD0, CHR 0xB0, CHR 0xD0, CHR 0xBD, CHR 0xD0, CHR 0xB8,
      CHR 0xD0, CHR 0xB5, CHR 0x20, CHR 0xD0, CHR 0xB1, CHR 0xD0, CHR 0xB5, CHR 0xD0,
      CHR 0xB7]"

definition msg_for_example_on :: string where
  \<comment> \<open>the UTF-8 bytes of the Russian for "for example, on"\<close>
  "msg_for_example_on =
     [CHR 0xD0, CHR 0xBD, CHR 0xD0, CHR 0xB0, CHR 0xD0, CHR 0xBF, CHR 0xD1, CHR 0x80,
      CHR 0xD0, CHR 0xB8, CHR 0xD0, CHR 0xBC, CHR 0xD0, CHR 0xB5, CHR 0xD1, CHR 0x80,
      CHR 0x2C, CHR 0x20, CHR 0xD0, CHR 0xBD, CHR 0xD0, CHR 0xB0]"

definition msg_add_commands :: string where
  \<comment> \<open>the UTF-8 bytes of the Russian for "Add the commands for deploying without containers"\<close>
  "msg_add_commands =
     [CHR 0xD0, CHR 0x94, CHR 0xD0, CHR 0xBE, CHR 0xD0, CHR 0xB1, CHR 0xD0, CHR 0xB0,
      CHR 0xD0, CHR 0xB2, CHR 0xD1, CHR 0x8C, CHR 0xD1, CHR 0x82, CHR 0xD0, CHR 0xB5,
      CHR 0x20, CHR 0xD0, CHR 0xBA, CHR 0xD0, CHR 0xBE, CHR 0xD0, CHR 0xBC, CHR 0xD0,
      CHR 0xB0, CHR 0xD0, CHR 0xBD, CHR 0xD0, CHR 0xB4, CHR 0xD1, CHR 0x8B, CHR 0x20,
      CHR 0xD0, CHR 0xB4, CHR 0xD0, CHR 0xBB, CHR 0xD1, CHR 0x8F, CHR 0x20, CHR 0xD1,
      CHR 0x80, CHR 0xD0, CHR 0xB0, CHR 0xD0, CHR 0xB7, CHR 0xD0, CHR 0xB2, CHR 0xD0,
      CHR 0xB5, CHR 0xD1, CHR 0x80, CHR 0xD1, CHR 0x82, CHR 0xD1, CHR 0x8B, CHR 0xD0,
      CHR 0xB2, CHR 0xD0, CHR 0xB0, CHR 0xD0, CHR 0xBD, CHR 0xD0, CHR 0xB8, CHR 0xD1,
      CHR 0x8F, CHR 0x20, CHR 0xD0, CHR 0xB1, CHR 0xD0, CHR 0xB5, CHR 0xD0, CHR 0xB7,
      CHR 0x20, CHR 0xD0, CHR 0xBA, CHR 0xD0, CHR 0xBE, CHR 0xD0, CHR 0xBD, CHR 0xD1,
      CHR 0x82, CHR 0xD0, CHR 0xB5, CHR 0xD0, CHR 0xB9, CHR 0xD0, CHR 0xBD, CHR 0xD0,
      CHR 0xB5, CHR 0xD1, CHR 0x80, CHR 0xD0, CHR 0xBE, CHR 0xD0, CHR 0xB2]"

definition msg_analysis :: string where
  \<comment> \<open>the UTF-8 bytes of the Russian for "analysis"\<close>
  "msg_analysis =
     [CHR 0xD0, CHR 0xB0, CHR 0xD0, CHR 0xBD, CHR 0xD0, CHR 0xB0, CHR 0xD0, CHR 0xBB,
      CHR 0xD0, CHR 0xB8, CHR 0xD0, CHR 0xB7]"

section \<open>Data model\<close>

text \<open>
  One entry of the file list the tree walk hands over (a dict with the keys \<open>name\<close>,
  \<open>type\<close>, \<open>path\<close>, \<open>full_path\<close> and, for files, \<open>extension\<close> and \<open>size\<close>).
\<close>

datatype kind = File | Directory

record file_info =
  fi_name :: string
  fi_type :: kind
  fi_extension :: "string option"
  fi_path :: string
  fi_full_path :: string
  fi_size :: "nat option"

text \<open>
  One entry of \<open>language_stats\<close>. The percentage is a decimal with one fractional digit,
  held exactly as a rational.
\<close>

record language_stat =
  ls_lines :: nat
  ls_percentage :: rat

record version_info =
  vi_language_version :: string
  vi_framework_versions :: "(string \<times> string) list"

text \<open>The dict \<open>detect_tech_stack\<close> returns; dicts keep insertion order, so they are association lists.
  Each record field carries the dict key of the source behind a prefix that names the dict.\<close>

record tech_stack =
  ts_primary_language :: string
  ts_language_stats :: "(string \<times> language_stat) list"
  ts_version_info :: version_info
  ts_frameworks :: "string list"
  ts_build_tools :: "string list"
  ts_package_managers :: "string list"
  ts_has_tests :: bool
  ts_has_dockerfile :: bool

record repository =
  r_url :: string
  r_platform :: string
  r_owner :: string
  r_name :: string
  r_full_name :: string

text \<open>The dict \<open>analyze_repository\<close> returns and \<open>generate_gitlab_pipeline\<close> consumes.\<close>

record analysis_result =
  ar_repository :: repository
  ar_tech_stack :: tech_stack
  ar_confidence_level :: rat
  ar_recommendations :: "string list"
  ar_file_structure :: "file_info list"
  ar_analysis_method :: string
  ar_temp_dir :: "string option"

section \<open>Failures and the outside world\<close>

text \<open>
  A Python exception is a value: a computation that may raise has a result of type
  \<open>py_error + 'a\<close>, \<open>Inl\<close> carrying the exception. A call propagates the callee's
  exception (\<open>and_then\<close>); \<open>try: ... except: return fallback\<close> turns every exception of
  its body into the fallback (\<open>try_except\<close>).
\<close>

datatype py_error =
  OSError | UnicodeDecodeError | JSONDecodeError | ParseError
  | AttributeError | TypeError | ValueError

type_synonym 'a result = "py_error + 'a"

definition and_then :: "'a result \<Rightarrow> ('a \<Rightarrow> 'b result) \<Rightarrow> 'b result" where
  "and_then m f = (case m of Inl e \<Rightarrow> Inl e | Inr v \<Rightarrow> f v)"

definition try_except :: "'a result \<Rightarrow> 'a \<Rightarrow> 'a result" where
  "try_except body fallback = (case body of Inl e \<Rightarrow> Inr fallback | Inr v \<Rightarrow> Inr v)"

text \<open>What \<open>json.load\<close> returns.\<close>

datatype json =
  JNull | JBool bool | JNumber rat | JString string
  | JArray "json list" | JObject "(string \<times> json) list"

text \<open>
  An element of the tree \<open>xml.etree.ElementTree\<close> parses: its tag (a namespaced tag is
  \<open>{uri}local\<close>), its text if any, its child elements in document order.
\<close>

datatype element = Element (el_tag: string) (el_text: "string option") (el_children: "element list")

text \<open>
  The file system and the two parsing libraries, as the detector uses them:
  \<open>os.path.exists\<close>, \<open>os.path.getsize\<close>, reading a whole file opened with
  \<open>encoding='utf-8'\<close> (strictly, and with \<open>errors='ignore'\<close>), \<open>json.load\<close> on the text
  read, and \<open>ET.parse(path).getroot()\<close>.
\<close>

record env =
  path_exists :: "string \<Rightarrow> bool"
  path_getsize :: "string \<Rightarrow> nat result"
  read_text :: "string \<Rightarrow> string result"
  read_text_ignore :: "string \<Rightarrow> string result"
  json_loads :: "string \<Rightarrow> json result"
  et_parse :: "string \<Rightarrow> element result"

text \<open>Truthiness of an \<open>Optional[str]\<close>: neither \<open>None\<close> nor empty.\<close>

definition truthy_opt :: "string option \<Rightarrow> bool" where
  "truthy_opt x = (case x of None \<Rightarrow> False | Some s \<Rightarrow> truthy s)"

section \<open>Regular expressions of the detector\<close>

text \<open>
  The patterns the detector hands to \<open>re\<close> are matched by functions written for them.
  Each pattern is a sequence of literals, greedy character-class runs and optional parts
  in which no shorter run can succeed where the longest fails, so one left-to-right pass
  decides a match at a position; \<open>re_search\<close> tries the positions from the left, as
  \<open>re.search\<close> does, and yields group 1 of the first match.
\<close>

fun re_search :: "(string \<Rightarrow> 'a option) \<Rightarrow> string \<Rightarrow> 'a option" where
  "re_search m [] = m []"
| "re_search m (c # cs) = (case m (c # cs) of Some r \<Rightarrow> Some r | None \<Rightarrow> re_search m cs)"

text \<open>A literal prefix; what follows it.\<close>

definition lit :: "string \<Rightarrow> string \<Rightarrow> string option" where
  "lit p s = (if startswith s p then Some (drop (length p) s) else None)"

text \<open>\<open>(\d+(?:\.\d+)?)\<close> at the start of a string.\<close>

definition match_num2 :: "string \<Rightarrow> string option" where
  "match_num2 s =
     (let a = takeWhile is_digit s; r = dropWhile is_digit s in
      if a = [] then None
      else (case r of
              c # r' \<Rightarrow>
                if c = CHR ''.'' \<and> takeWhile is_digit r' \<noteq> []
                then Some (a @ ''.'' @ takeWhile is_digit r')
                else Some a
            | [] \<Rightarrow> Some a))"

text \<open>\<open>(\d+\.\d+)\<close> at the start of a string.\<close>

definition match_num_dot_num :: "string \<Rightarrow> string option" where
  "match_num_dot_num s =
     (let a = takeWhile is_digit s; r = dropWhile is_digit s in
      if a = [] then None
      else (case r of
              c # r' \<Rightarrow>
                if c = CHR ''.'' \<and> takeWhile is_digit r' \<noteq> []
                then Some (a @ ''.'' @ takeWhile is_digit r')
                else None
            | [] \<Rightarrow> None))"

text \<open>\<open>(\d+\.\d+(?:\.\d+)?)\<close> at the start of a string.\<close>

definition match_version :: "string \<Rightarrow> string option" where
  "match_version s =
     (case match_num_dot_num s of
        None \<Rightarrow> None
      | Some ab \<Rightarrow>
          (case drop (length ab) s of
             c # r \<Rightarrow>
               if c = CHR ''.'' \<and> takeWhile is_digit r \<noteq> []
               then Some (ab @ ''.'' @ takeWhile is_digit r)
               else Some ab
           | [] \<Rightarrow> Some ab))"

text \<open>\<open>go\s+(\d+\.\d+(?:\.\d+)?)\<close> at the start of a string.\<close>

definition match_go_directive :: "string \<Rightarrow> string option" where
  "match_go_directive s =
     (case lit ''go'' s of
        None \<Rightarrow> None
      | Some r \<Rightarrow>
          if takeWhile is_space r = [] then None
          else match_version (dropWhile is_space r))"

text \<open>\<open>sourceCompatibility\s*=\s*["\']?(\d+(?:\.\d+)?)["\']?\<close> at the start of a string.\<close>

definition is_quote :: "char \<Rightarrow> bool" where
  "is_quote c = (c = CHR 0x22 \<or> c = CHR 0x27)"

definition match_source_compatibility :: "string \<Rightarrow> string option" where
  "match_source_compatibility s =
     (case lit ''sourceCompatibility'' s of
        None \<Rightarrow> None
      | Some r \<Rightarrow>
          (case lit ''='' (dropWhile is_space r) of
             None \<Rightarrow> None
           | Some r' \<Rightarrow>
               (let v = dropWhile is_space r' in
                case v of
                  c # v' \<Rightarrow> if is_quote c then match_num2 v' else match_num2 v
                | [] \<Rightarrow> None)))"

text \<open>\<open>JavaVersion\.VERSION_(\d+)\<close> at the start of a string.\<close>

definition match_java_version_const :: "string \<Rightarrow> string option" where
  "match_java_version_const s =
     (case lit ''JavaVersion.VERSION_'' s of
        None \<Rightarrow> None
      | Some r \<Rightarrow> if takeWhile is_digit r = [] then None else Some (takeWhile is_digit r))"

text \<open>\<open>requires-python\s*=\s*["\']([^"\']+)["\']\<close> at the start of a string.\<close>

definition match_requires_python :: "string \<Rightarrow> string option" where
  "match_requires_python s =
     (case lit ''requires-python'' s of
        None \<Rightarrow> None
      | Some r \<Rightarrow>
          (case lit ''='' (dropWhile is_space r) of
             None \<Rightarrow> None
           | Some r' \<Rightarrow>
               (case dropWhile is_space r' of
                  c # v \<Rightarrow>
                    if is_quote c \<and> takeWhile (\<lambda>x. \<not> is_quote x) v \<noteq> [] \<and>
                       dropWhile (\<lambda>x. \<not> is_quote x) v \<noteq> []
                    then Some (takeWhile (\<lambda>x. \<not> is_quote x) v)
                    else None
                | [] \<Rightarrow> None)))"

text \<open>
  \<open>re.match(pattern, name, re.IGNORECASE)\<close> for the test-file patterns, which all have
  the shape \<open>prefix.*suffix$\<close> with literal prefix and suffix: the name, without one final
  line break if it has one, starts with the prefix and goes on with a text ending in the
  suffix, and \<open>.*\<close> crosses no line break. Letters compare through \<open>py_lower\<close>.
\<close>

definition match_affix :: "string \<Rightarrow> string \<Rightarrow> string \<Rightarrow> bool" where
  "match_affix pre suf name =
     (let s = py_lower name;
          t = (if s \<noteq> [] \<and> last s = nl then butlast s else s);
          mid = drop (length pre) t
      in startswith t (py_lower pre) \<and> endswith mid (py_lower suf) \<and>
         nl \<notin> set (take (length mid - length suf) mid))"

section \<open>The technology stack detector\<close>

subsection \<open>Tables of the detector\<close>

definition language_extensions :: "(string \<times> string) list" where
  "language_extensions =
     [(''.js'', ''JavaScript''), (''.jsx'', ''JavaScript''), (''.ts'', ''TypeScript''),
      (''.tsx'', ''TypeScript''), (''.mjs'', ''JavaScript''), (''.cjs'', ''JavaScript''),
      (''.py'', ''Python''), (''.pyw'', ''Python''), (''.pyx'', ''Python''),
      (''.java'', ''Java''), (''.kt'', ''Kotlin''), (''.kts'', ''Kotlin''),
      (''.go'', ''Go''),
      (''.rs'', ''Rust''), (''.cpp'', ''C++''), (''.cc'', ''C++''), (''.cxx'', ''C++''),
      (''.c'', ''C''), (''.h'', ''C/C++''), (''.hpp'', ''C++''), (''.cs'', ''C#''),
      (''.php'', ''PHP''), (''.rb'', ''Ruby''), (''.swift'', ''Swift''),
      (''.scala'', ''Scala''), (''.dart'', ''Dart'')]"

definition default_versions :: "(string \<times> string) list" where
  "default_versions =
     [(''Java'', ''11''), (''Kotlin'', ''1.8''), (''Go'', ''1.19''), (''TypeScript'', ''5.0''),
      (''JavaScript'', ''ES2022''), (''Python'', ''3.9'')]"

subsection \<open>Counting lines\<close>

text \<open>
  \<open>_count_file_lines\<close>: the lines of the file with a character that is not whitespace;
  0 without a project directory or a path, for a missing file, for a file above 1 MiB and
  on every exception.
\<close>

definition significant_lines :: "string \<Rightarrow> nat" where
  "significant_lines content = length (filter (\<lambda>line. truthy (py_strip line)) (split_lines content))"

definition count_file_lines :: "env \<Rightarrow> file_info \<Rightarrow> string option \<Rightarrow> nat result" where
  "count_file_lines env file_info project_dir =
     try_except
       (if truthy_opt project_dir \<and> truthy (fi_full_path file_info) then
          (let file_path = fi_full_path file_info in
           if \<not> path_exists env file_path then Inr 0
           else and_then (path_getsize env file_path) (\<lambda>sz.
                  if sz > 1024 * 1024 then Inr 0
                  else and_then (read_text_ignore env file_path) (\<lambda>content.
                         Inr (significant_lines content))))
        else Inr 0)
       0"

text \<open>
  \<open>round(x, 1)\<close> for \<open>x = n / d\<close>, in tenths: the nearest integer to \<open>10 * x\<close>, a tie going
  to the even one. The source computes in binary floating point; the model keeps the
  decimal value exact.
\<close>

definition round_half_even :: "int \<Rightarrow> int \<Rightarrow> int" where
  "round_half_even n d =
     (let q = n div d; r = n mod d in
      if 2 * r < d then q
      else if 2 * r > d then q + 1
      else if even q then q else q + 1)"

definition percentage_of :: "nat \<Rightarrow> nat \<Rightarrow> rat" where
  "percentage_of lines total_lines =
     of_int (round_half_even (1000 * int lines) (int total_lines)) / 10"

text \<open>\<open>language_lines[language] += lines_count\<close> on an insertion-ordered \<open>defaultdict(int)\<close>.\<close>

fun dict_add :: "string \<Rightarrow> nat \<Rightarrow> (string \<times> nat) list \<Rightarrow> (string \<times> nat) list" where
  "dict_add k n [] = [(k, n)]"
| "dict_add k n ((k', v) # kvs) =
     (if k' = k then (k', v + n) # kvs else (k', v) # dict_add k n kvs)"

text \<open>The loop of \<open>_count_lines_by_language\<close> over the file list, on the two accumulators.\<close>

fun count_loop ::
    "env \<Rightarrow> string option \<Rightarrow> file_info list \<Rightarrow> (string \<times> nat) list \<times> nat \<Rightarrow>
     ((string \<times> nat) list \<times> nat) result" where
  "count_loop env project_dir [] acc = Inr acc"
| "count_loop env project_dir (file_info # rest) (language_lines, total_lines) =
     (if fi_type file_info \<noteq> File then count_loop env project_dir rest (language_lines, total_lines)
      else
        (let extension = py_lower (case fi_extension file_info of None \<Rightarrow> [] | Some e \<Rightarrow> e) in
         case map_of language_extensions extension of
           None \<Rightarrow> count_loop env project_dir rest (language_lines, total_lines)
         | Some language \<Rightarrow>
             and_then (count_file_lines env file_info project_dir) (\<lambda>lines_count.
               if lines_count > 0
               then count_loop env project_dir rest
                      (dict_add language lines_count language_lines, total_lines + lines_count)
               else count_loop env project_dir rest (language_lines, total_lines))))"

text \<open>
  The rest of \<open>_count_lines_by_language\<close>: the percentages over the grand total, then the
  stable sort by line count, largest first (\<open>sorted(..., reverse=True)\<close> keeps the order of
  equal keys).
\<close>

definition language_stats_of :: "(string \<times> nat) list \<Rightarrow> nat \<Rightarrow> (string \<times> language_stat) list" where
  "language_stats_of language_lines total_lines =
     (let language_stats =
        (if total_lines > 0
         then map (\<lambda>(language, lines).
                (language, \<lparr>ls_lines = lines, ls_percentage = percentage_of lines total_lines\<rparr>))
              language_lines
         else [])
      in sort_key (\<lambda>x. - int (ls_lines (snd x))) language_stats)"

definition count_lines_by_language ::
    "env \<Rightarrow> file_info list \<Rightarrow> string option \<Rightarrow> (string \<times> language_stat) list result" where
  "count_lines_by_language env file_structure project_dir =
     and_then (count_loop env project_dir file_structure ([], 0)) (\<lambda>(language_lines, total_lines).
       Inr (language_stats_of language_lines total_lines))"

subsection \<open>The primary language\<close>

definition exclude_languages :: "string list" where
  "exclude_languages = [''JSON'', ''YAML'', ''XML'', ''Markdown'', ''HTML'', ''CSS'']"

fun first_not_excluded :: "(string \<times> language_stat) list \<Rightarrow> string option" where
  "first_not_excluded [] = None"
| "first_not_excluded ((language, stats) # rest) =
     (if language \<notin> set exclude_languages then Some language else first_not_excluded rest)"

definition detect_primary_language :: "(string \<times> language_stat) list \<Rightarrow> string" where
  "detect_primary_language language_stats =
     (if language_stats = [] then ''Unknown''
      else (case first_not_excluded language_stats of
              Some language \<Rightarrow> language
            | None \<Rightarrow> (case language_stats of [] \<Rightarrow> ''Unknown'' | (language, stats) # rest \<Rightarrow> language)))"

subsection \<open>Versions\<close>

fun find_file :: "file_info list \<Rightarrow> string \<Rightarrow> string option" where
  "find_file [] filename = None"
| "find_file (file_info # rest) filename =
     (if fi_name file_info = filename then Some (fi_full_path file_info) else find_file rest filename)"

text \<open>Element paths: \<open>.//tag\<close> ranges over the elements below the current one, in document order.\<close>

fun descendants :: "element \<Rightarrow> element list" where
  "descendants (Element t x cs) = concat (map (\<lambda>c. c # descendants c) cs)"

definition findall_below :: "string \<Rightarrow> element \<Rightarrow> element list" where
  "findall_below t e = filter (\<lambda>d. el_tag d = t) (descendants e)"

definition find_below :: "string \<Rightarrow> element \<Rightarrow> element option" where
  "find_below t e = (case findall_below t e of [] \<Rightarrow> None | d # ds \<Rightarrow> Some d)"

definition find_child :: "string \<Rightarrow> element \<Rightarrow> element option" where
  "find_child t e = (case filter (\<lambda>d. el_tag d = t) (el_children e) of [] \<Rightarrow> None | d # ds \<Rightarrow> Some d)"

text \<open>\<open>a or b\<close> on found elements: an element is falsy when it has no children.\<close>

definition element_or :: "element option \<Rightarrow> element option \<Rightarrow> element option" where
  "element_or a b = (case a of None \<Rightarrow> b | Some e \<Rightarrow> if el_children e = [] then b else a)"

definition maven_ns :: string where
  "maven_ns = ''{http://maven.apache.org/POM/4.0.0}''"

fun first_version_property :: "element list \<Rightarrow> string option" where
  "first_version_property [] = None"
| "first_version_property (prop # rest) =
     (if contains (el_tag prop) ''java.version'' \<or> contains (el_tag prop) ''maven.compiler.source''
      then el_text prop
      else first_version_property rest)"

definition extract_java_version_from_pom :: "env \<Rightarrow> string \<Rightarrow> string option result" where
  "extract_java_version_from_pom env file_path =
     try_except
       (and_then (et_parse env file_path) (\<lambda>root_element.
          (let properties =
             element_or (find_below (maven_ns @ ''properties'') root_element)
                        (find_below ''properties'' root_element)
           in case properties of
                None \<Rightarrow> Inr None
              | Some p \<Rightarrow> Inr (first_version_property (el_children p)))))
       None"

definition extract_java_version_from_gradle :: "env \<Rightarrow> string \<Rightarrow> string option result" where
  "extract_java_version_from_gradle env file_path =
     try_except
       (and_then (read_text env file_path) (\<lambda>content.
          (case re_search match_source_compatibility content of
             Some v \<Rightarrow> Inr (Some v)
           | None \<Rightarrow> Inr (re_search match_java_version_const content))))
       None"

definition extract_go_version :: "env \<Rightarrow> string \<Rightarrow> string option result" where
  "extract_go_version env file_path =
     try_except
       (and_then (read_text env file_path) (\<lambda>content.
          Inr (re_search match_go_directive content)))
       None"

definition extract_python_version_from_pyproject :: "env \<Rightarrow> string \<Rightarrow> string option result" where
  "extract_python_version_from_pyproject env file_path =
     try_except
       (and_then (read_text env file_path) (\<lambda>content.
          (case re_search match_requires_python content of
             Some version_spec \<Rightarrow> Inr (re_search match_num_dot_num version_spec)
           | None \<Rightarrow> Inr None)))
       None"

text \<open>\<open>data.get(key, {})\<close>: only a dict has \<open>get\<close>.\<close>

definition json_get :: "json \<Rightarrow> string \<Rightarrow> json \<Rightarrow> json result" where
  "json_get data key dflt =
     (case data of
        JObject kvs \<Rightarrow> Inr (case map_of kvs key of None \<Rightarrow> dflt | Some v \<Rightarrow> v)
      | _ \<Rightarrow> Inl AttributeError)"

definition extract_node_version :: "env \<Rightarrow> string \<Rightarrow> string option result" where
  "extract_node_version env file_path =
     try_except
       (and_then (read_text env file_path) (\<lambda>content.
        and_then (json_loads env content) (\<lambda>data.
        and_then (json_get data ''engines'' (JObject [])) (\<lambda>engines.
          (case engines of
             JObject kvs \<Rightarrow>
               (case map_of kvs ''node'' of
                  None \<Rightarrow> Inr None
                | Some node_version \<Rightarrow>
                    (case node_version of
                       JString s \<Rightarrow> Inr (re_search match_num2 s)
                     | _ \<Rightarrow> Inl TypeError))
           | JArray xs \<Rightarrow> if JString ''node'' \<in> set xs then Inl TypeError else Inr None
           | JString s \<Rightarrow> if contains s ''node'' then Inl TypeError else Inr None
           | _ \<Rightarrow> Inl TypeError)))))
       None"

text \<open>
  \<open>_detect_versions\<close>: the default of the language, replaced by what a manifest yields
  when the manifest is found, a project directory is given and the value is truthy. The
  source writes this block out once per manifest; \<open>override_version\<close> is that block.
\<close>

definition override_version ::
    "file_info list \<Rightarrow> string option \<Rightarrow> string \<Rightarrow> (string \<Rightarrow> string option result) \<Rightarrow>
     string \<Rightarrow> string result" where
  "override_version file_structure project_dir filename extract current =
     (case find_file file_structure filename of
        None \<Rightarrow> Inr current
      | Some found_path \<Rightarrow>
          if truthy found_path \<and> truthy_opt project_dir then
            and_then (extract found_path) (\<lambda>v.
              case v of
                None \<Rightarrow> Inr current
              | Some version \<Rightarrow> if truthy version then Inr version else Inr current)
          else Inr current)"

definition detect_versions ::
    "env \<Rightarrow> file_info list \<Rightarrow> string option \<Rightarrow> string \<Rightarrow> version_info result" where
  "detect_versions env file_structure project_dir primary_language =
     (let dflt = (case map_of default_versions primary_language of None \<Rightarrow> ''latest'' | Some v \<Rightarrow> v) in
      and_then
        (if primary_language = ''Java'' then
           and_then (override_version file_structure project_dir ''pom.xml''
                       (extract_java_version_from_pom env) dflt) (\<lambda>v.
             override_version file_structure project_dir ''build.gradle''
               (extract_java_version_from_gradle env) v)
         else if primary_language = ''Go'' then
           override_version file_structure project_dir ''go.mod'' (extract_go_version env) dflt
         else if primary_language = ''Python'' then
           override_version file_structure project_dir ''pyproject.toml''
             (extract_python_version_from_pyproject env) dflt
         else if primary_language \<in> set [''TypeScript'', ''JavaScript''] then
           override_version file_structure project_dir ''package.json''
             (extract_node_version env) dflt
         else Inr dflt)
        (\<lambda>v. Inr \<lparr>vi_language_version = v, vi_framework_versions = []\<rparr>))"

subsection \<open>Frameworks\<close>

text \<open>
  A set of names is a list of its members; \<open>sorted(list(s))\<close> sorts it and drops the
  repetitions. The names a mapping yields for the keys a test accepts, in mapping order:
\<close>

definition names_where :: "(string \<times> string) list \<Rightarrow> (string \<Rightarrow> bool) \<Rightarrow> string list" where
  "names_where framework_mapping accepts =
     map snd (filter (\<lambda>kv. accepts (fst kv)) framework_mapping)"

definition sorted_set :: "string list \<Rightarrow> string list" where
  "sorted_set xs = sort (remdups xs)"

text \<open>
  \<open>dependencies.update(other)\<close> on the keys of the dict: a dict gives its keys; any other
  iterable must yield pairs (sequences of length two with a hashable first member); what
  cannot be iterated raises.
\<close>

definition hashable :: "json \<Rightarrow> bool" where
  "hashable j = (case j of JArray xs \<Rightarrow> False | JObject kvs \<Rightarrow> False | _ \<Rightarrow> True)"

definition pair_key :: "json \<Rightarrow> json result" where
  "pair_key item =
     (case item of
        JArray xs \<Rightarrow>
          (case xs of
             [k, v] \<Rightarrow> if hashable k then Inr k else Inl TypeError
           | _ \<Rightarrow> Inl ValueError)
      | JString s \<Rightarrow> (case s of [c, d] \<Rightarrow> Inr (JString [c]) | _ \<Rightarrow> Inl ValueError)
      | JObject kvs \<Rightarrow> (case kvs of [kv, kv'] \<Rightarrow> Inr (JString (fst kv)) | _ \<Rightarrow> Inl ValueError)
      | _ \<Rightarrow> Inl TypeError)"

fun pair_keys :: "json list \<Rightarrow> json list result" where
  "pair_keys [] = Inr []"
| "pair_keys (item # items) =
     and_then (pair_key item) (\<lambda>k. and_then (pair_keys items) (\<lambda>ks. Inr (k # ks)))"

definition dict_update :: "json list \<Rightarrow> json \<Rightarrow> json list result" where
  "dict_update keys other =
     (case other of
        JObject kvs \<Rightarrow> Inr (keys @ map (\<lambda>kv. JString (fst kv)) kvs)
      | JArray items \<Rightarrow> and_then (pair_keys items) (\<lambda>ks. Inr (keys @ ks))
      | JString s \<Rightarrow> if s = [] then Inr keys else Inl ValueError
      | _ \<Rightarrow> Inl TypeError)"

definition analyze_package_json :: "env \<Rightarrow> string \<Rightarrow> string list result" where
  "analyze_package_json env file_path =
     try_except
       (and_then (read_text env file_path) (\<lambda>content.
        and_then (json_loads env content) (\<lambda>data.
        and_then (json_get data ''dependencies'' (JObject [])) (\<lambda>deps.
        and_then (dict_update [] deps) (\<lambda>dependencies.
        and_then (json_get data ''devDependencies'' (JObject [])) (\<lambda>dev_deps.
        and_then (dict_update dependencies dev_deps) (\<lambda>dependencies.
          (let framework_mapping =
             [(''react'', ''React''), (''@types/react'', ''React''), (''react-dom'', ''React''),
              (''react-scripts'', ''React''), (''next'', ''Next.js''), (''nuxt'', ''Nuxt.js''),
              (''vue'', ''Vue.js''), (''@vue/cli'', ''Vue.js''), (''@angular/core'', ''Angular''),
              (''svelte'', ''Svelte''), (''express'', ''Express.js''), (''koa'', ''Koa''),
              (''fastify'', ''Fastify''), (''@nestjs/core'', ''NestJS''),
              (''typescript'', ''TypeScript''), (''webpack'', ''Webpack''), (''vite'', ''Vite''),
              (''jest'', ''Jest''), (''mocha'', ''Mocha''), (''cypress'', ''Cypress'')]
           in Inr (names_where framework_mapping
                     (\<lambda>dep_name. JString dep_name \<in> set dependencies))))))))))
       []"

definition analyze_requirements_txt :: "env \<Rightarrow> string \<Rightarrow> string list result" where
  "analyze_requirements_txt env file_path =
     try_except
       (and_then (read_text env file_path) (\<lambda>content.
          (let framework_mapping =
             [(''django'', ''Django''), (''flask'', ''Flask''), (''fastapi'', ''FastAPI''),
              (''tornado'', ''Tornado''), (''sanic'', ''Sanic''), (''starlette'', ''Starlette''),
              (''aiohttp'', ''aiohttp''), (''streamlit'', ''Streamlit''), (''pandas'', ''Pandas''),
              (''numpy'', ''NumPy''), (''tensorflow'', ''TensorFlow''), (''pytorch'', ''PyTorch''),
              (''torch'', ''PyTorch''), (''pytest'', ''pytest''), (''unittest'', ''unittest'')]
           in Inr (concat (map (\<lambda>raw.
                     (let line = py_lower (py_strip raw) in
                      if truthy line \<and> \<not> startswith line ''#'' then
                        (let package_name = py_strip (takeWhile (\<lambda>c. c \<notin> set ''><=!'') line)
                         in names_where framework_mapping (\<lambda>framework_key. contains package_name framework_key))
                      else []))
                   (split_lines content))))))
       []"

definition analyze_pyproject_toml :: "env \<Rightarrow> string \<Rightarrow> string list result" where
  "analyze_pyproject_toml env file_path =
     try_except
       (and_then (read_text env file_path) (\<lambda>content.
          (let framework_mapping =
             [(''django'', ''Django''), (''flask'', ''Flask''), (''fastapi'', ''FastAPI''),
              (''poetry'', ''Poetry'')]
           in Inr (names_where framework_mapping
                     (\<lambda>framework_key. contains (py_lower content) framework_key)))))
       []"

text \<open>
  The loop of \<open>_analyze_pom_xml\<close> over the dependencies. The set of frameworks lives
  outside the \<open>try\<close>, so when an \<open>artifactId\<close> without text raises, what was found before
  is kept: the loop returns the set and the exception, if any.
\<close>

fun pom_loop :: "element list \<Rightarrow> string list \<Rightarrow> string list \<times> py_error option" where
  "pom_loop [] frameworks = (frameworks, None)"
| "pom_loop (dependency # rest) frameworks =
     (let framework_mapping =
        [(''spring-boot'', ''Spring Boot''), (''spring-core'', ''Spring Framework''),
         (''spring-web'', ''Spring Web''), (''hibernate'', ''Hibernate''), (''junit'', ''JUnit''),
         (''mockito'', ''Mockito'')];
          artifact_id =
            element_or (find_child ''artifactId'' dependency)
                       (find_below (maven_ns @ ''artifactId'') dependency)
      in case artifact_id of
           None \<Rightarrow> pom_loop rest frameworks
         | Some a \<Rightarrow>
             (case el_text a of
                None \<Rightarrow> (frameworks, Some AttributeError)
              | Some t \<Rightarrow>
                  (let artifact_name = py_lower t in
                   pom_loop rest
                     (frameworks @
                      names_where framework_mapping (\<lambda>framework_key. contains artifact_name framework_key)))))"

definition analyze_pom_xml :: "env \<Rightarrow> string \<Rightarrow> string list result" where
  "analyze_pom_xml env file_path =
     (case et_parse env file_path of
        Inl e \<Rightarrow> Inr []
      | Inr root_element \<Rightarrow>
          (let found = findall_below (maven_ns @ ''dependency'') root_element;
               dependencies = (if found \<noteq> [] then found else findall_below ''dependency'' root_element)
           in Inr (fst (pom_loop dependencies []))))"

definition analyze_gradle :: "env \<Rightarrow> string \<Rightarrow> string list result" where
  "analyze_gradle env file_path =
     try_except
       (and_then (read_text env file_path) (\<lambda>content.
          (let framework_mapping =
             [(''spring-boot'', ''Spring Boot''), (''spring'', ''Spring Framework''),
              (''hibernate'', ''Hibernate''), (''junit'', ''JUnit''), (''kotlin'', ''Kotlin'')]
           in Inr (names_where framework_mapping
                     (\<lambda>framework_key. contains (py_lower content) framework_key)))))
       []"

definition analyze_go_mod :: "env \<Rightarrow> string \<Rightarrow> string list result" where
  "analyze_go_mod env file_path =
     try_except
       (and_then (read_text env file_path) (\<lambda>content.
          (let framework_mapping =
             [(''gin-gonic/gin'', ''Gin''), (''gorilla/mux'', ''Gorilla Mux''),
              (''labstack/echo'', ''Echo''), (''fiber'', ''Fiber''), (''gorm.io/gorm'', ''GORM''),
              (''go-chi/chi'', ''Chi'')]
           in Inr (names_where framework_mapping (\<lambda>framework_key. contains content framework_key)))))
       []"

definition analyze_by_file_structure :: "file_info list \<Rightarrow> string list" where
  "analyze_by_file_structure file_structure =
     (let file_paths = map fi_path (filter (\<lambda>f. fi_type f = File) file_structure) in
      (if list_ex (\<lambda>path. contains path ''.jsx'' \<or> contains path ''.tsx'') file_paths
       then [''React''] else []) @
      (if list_ex (\<lambda>path. contains path ''.vue'') file_paths then [''Vue.js''] else []) @
      (if list_ex (\<lambda>path. contains path ''manage.py'' \<or> contains path ''settings.py'') file_paths
       then [''Django''] else []))"

text \<open>
  One manifest of \<open>_detect_frameworks\<close>: analysed when it is found and a project directory
  is given. The source writes this block out once per manifest.
\<close>

definition manifest_frameworks ::
    "file_info list \<Rightarrow> string option \<Rightarrow> string \<Rightarrow> (string \<Rightarrow> string list result) \<Rightarrow>
     string list result" where
  "manifest_frameworks file_structure project_dir filename analyze =
     (case find_file file_structure filename of
        None \<Rightarrow> Inr []
      | Some found_path \<Rightarrow>
          if truthy found_path \<and> truthy_opt project_dir then analyze found_path else Inr [])"

definition detect_frameworks ::
    "env \<Rightarrow> file_info list \<Rightarrow> string option \<Rightarrow> string \<Rightarrow> string list result" where
  "detect_frameworks env file_structure project_dir primary_language =
     and_then
       (if primary_language \<in> set [''JavaScript'', ''TypeScript''] then
          manifest_frameworks file_structure project_dir ''package.json'' (analyze_package_json env)
        else if primary_language = ''Python'' then
          and_then (manifest_frameworks file_structure project_dir ''requirements.txt''
                      (analyze_requirements_txt env)) (\<lambda>a.
          and_then (manifest_frameworks file_structure project_dir ''pyproject.toml''
                      (analyze_pyproject_toml env)) (\<lambda>b. Inr (a @ b)))
        else if primary_language \<in> set [''Java'', ''Kotlin''] then
          and_then (manifest_frameworks file_structure project_dir ''pom.xml''
                      (analyze_pom_xml env)) (\<lambda>a.
          and_then (manifest_frameworks file_structure project_dir ''build.gradle''
                      (analyze_gradle env)) (\<lambda>b. Inr (a @ b)))
        else if primary_language = ''Go'' then
          manifest_frameworks file_structure project_dir ''go.mod'' (analyze_go_mod env)
        else Inr [])
       (\<lambda>frameworks. Inr (sorted_set (frameworks @ analyze_by_file_structure file_structure)))"

subsection \<open>Build tools, tests, Dockerfile\<close>

definition detect_build_tools :: "file_info list \<Rightarrow> string list" where
  "detect_build_tools file_structure =
     (let file_mapping =
        [(''package.json'', ''npm''), (''yarn.lock'', ''yarn''), (''pnpm-lock.yaml'', ''pnpm''),
         (''requirements.txt'', ''pip''), (''pyproject.toml'', ''poetry''), (''Pipfile'', ''pipenv''),
         (''pom.xml'', ''maven''), (''build.gradle'', ''gradle''), (''build.gradle.kts'', ''gradle''),
         (''Cargo.toml'', ''cargo''), (''go.mod'', ''go''), (''Makefile'', ''make''),
         (''webpack.config.js'', ''webpack''), (''vite.config.js'', ''vite''),
         (''vite.config.ts'', ''vite'')]
      in sorted_set
           (concat (map (\<lambda>file_info.
              if fi_type file_info = File
              then (case map_of file_mapping (fi_name file_info) of None \<Rightarrow> [] | Some tool \<Rightarrow> [tool])
              else [])
            file_structure)))"

definition detect_package_managers :: "string list \<Rightarrow> string list" where
  "detect_package_managers build_tools = build_tools"

text \<open>The eleven patterns of \<open>_check_tests\<close>, each as its literal prefix and suffix around \<open>.*\<close>.\<close>

definition test_patterns :: "(string \<times> string) list" where
  "test_patterns =
     [(''test'', ''.py''), ('''', ''_test.py''), ('''', ''.test.js''), ('''', ''.spec.js''),
      ('''', ''.test.ts''), ('''', ''.spec.ts''), ('''', ''Test.java''), ('''', ''_test.go''),
      (''test_'', ''.py''), ('''', ''.test.jsx''), ('''', ''.spec.tsx'')]"

definition test_directories :: "string list" where
  "test_directories = [''test'', ''tests'', ''__tests__'', ''spec'', ''specs'']"

definition is_test_record :: "file_info \<Rightarrow> bool" where
  "is_test_record file_info =
     (let name = fi_name file_info; path = fi_path file_info in
      list_ex (\<lambda>pattern. match_affix (fst pattern) (snd pattern) name) test_patterns \<or>
      list_ex (\<lambda>test_dir. contains path (''/'' @ test_dir @ ''/'') \<or> startswith path (''/'' @ test_dir))
        test_directories)"

definition check_tests :: "file_info list \<Rightarrow> bool" where
  "check_tests file_structure = list_ex is_test_record file_structure"

definition check_dockerfile :: "file_info list \<Rightarrow> bool" where
  "check_dockerfile file_structure =
     (let dockerfile_names = [''Dockerfile'', ''dockerfile'', ''Dockerfile.prod'', ''Dockerfile.dev''] in
      list_ex (\<lambda>file_info. fi_type file_info = File \<and> fi_name file_info \<in> set dockerfile_names)
        file_structure)"

subsection \<open>The whole detection\<close>

definition detect_tech_stack :: "env \<Rightarrow> file_info list \<Rightarrow> string option \<Rightarrow> tech_stack result" where
  "detect_tech_stack env file_structure project_dir =
     and_then (count_lines_by_language env file_structure project_dir) (\<lambda>language_stats.
       (let primary_language = detect_primary_language language_stats in
        and_then (detect_versions env file_structure project_dir primary_language) (\<lambda>version_info.
        and_then (detect_frameworks env file_structure project_dir primary_language) (\<lambda>frameworks.
          (let build_tools = detect_build_tools file_structure;
               package_managers = detect_package_managers build_tools;
               has_tests = check_tests file_structure;
               has_dockerfile = check_dockerfile file_structure
           in Inr \<lparr>ts_primary_language = primary_language,
                    ts_language_stats = language_stats,
                    ts_version_info = version_info,
                    ts_frameworks = frameworks,
                    ts_build_tools = build_tools,
                    ts_package_managers = package_managers,
                    ts_has_tests = has_tests,
                    ts_has_dockerfile = has_dockerfile\<rparr>)))))"

section \<open>The confidence of an analysis\<close>

text \<open>\<open>_calculate_confidence\<close> of the repository analyzer; the decimal constants are exact.\<close>

definition calculate_confidence :: "tech_stack \<Rightarrow> file_info list \<Rightarrow> rat" where
  "calculate_confidence tech_stack files =
     (let config_files = [''package.json'', ''requirements.txt'', ''pom.xml'', ''build.gradle'',
                          ''Cargo.toml'', ''go.mod'', ''pyproject.toml''];
          confidence = 4 / 10;
          confidence =
            (if list_ex (\<lambda>config_file. list_ex (\<lambda>f. fi_name f = config_file) files) config_files
             then confidence + 15 / 100 else confidence);
          confidence = (if truthy (ts_build_tools tech_stack) then confidence + 1 / 10 else confidence);
          confidence = (if ts_has_tests tech_stack then confidence + 1 / 10 else confidence);
          confidence = (if truthy (ts_frameworks tech_stack) then confidence + 1 / 10 else confidence);
          confidence =
            (if truthy (ts_primary_language tech_stack) \<and> ts_primary_language tech_stack \<noteq> ''Unknown''
             then confidence + 15 / 100 else confidence)
      in min confidence 1)"

section \<open>The pipeline generator\<close>

text \<open>The two feature flags \<open>__init__\<close> sets on the generator, both to \<open>True\<close>.\<close>

record pipeline_generator =
  sonarqube_enabled :: bool
  nexus_enabled :: bool

definition PipelineGenerator :: pipeline_generator where
  "PipelineGenerator = \<lparr>sonarqube_enabled = True, nexus_enabled = True\<rparr>"

text \<open>The dict handed to \<open>yaml.dump\<close>: the head of the pipeline file.\<close>

record cache_config =
  cc_key :: string
  cc_paths :: "string list"
  cc_policy :: string

record pipeline_dict =
  pd_stages :: "string list"
  pd_variables :: "(string \<times> string) list"
  pd_image :: string
  pd_cache :: cache_config
  pd_before_script :: "string list"

definition get_docker_image_and_variables ::
    "string \<Rightarrow> string list \<Rightarrow> version_info \<Rightarrow> string \<times> (string \<times> string) list" where
  "get_docker_image_and_variables primary_language frameworks version_info =
     (let language_version = vi_language_version version_info in
      if primary_language \<in> set [''JavaScript'', ''TypeScript''] then
        (let node_version = (if truthy language_version then language_version else ''18'') in
         (''node:'' @ node_version @ ''-alpine'',
          [(''NPM_CONFIG_CACHE'', ''$CI_PROJECT_DIR/.npm''),
           (''NODE_OPTIONS'', ''--max-old-space-size=4096''),
           (''CI'', ''true'')]))
      else if primary_language = ''Python'' then
        (let python_version = (if truthy language_version then language_version else ''3.9'') in
         (''python:'' @ python_version @ ''-slim'',
          [(''PIP_CACHE_DIR'', ''$CI_PROJECT_DIR/.cache/pip''),
           (''PYTHONPATH'', ''$CI_PROJECT_DIR''),
           (''PYTHONUNBUFFERED'', ''1'')]))
      else if primary_language \<in> set [''Java'', ''Kotlin''] then
        (let java_version = (if truthy language_version then language_version else ''11'') in
         (''maven:3.8-openjdk-'' @ java_version,
          [(''MAVEN_OPTS'', ''-Dmaven.repo.local=$CI_PROJECT_DIR/.m2/repository -Xmx1024m''),
           (''MAVEN_CLI_OPTS'', ''--batch-mode --errors --fail-at-end --show-version'')]))
      else if primary_language = ''Go'' then
        (let go_version = (if truthy language_version then language_version else ''1.19'') in
         (''golang:'' @ go_version @ ''-alpine'',
          [(''GOCACHE'', ''$CI_PROJECT_DIR/.cache/go-build''),
           (''GOPATH'', ''$CI_PROJECT_DIR/.go''),
           (''CGO_ENABLED'', ''0'')]))
      else (''alpine:latest'', []))"

definition generate_cache_config :: "string \<Rightarrow> string list \<Rightarrow> cache_config" where
  "generate_cache_config primary_language build_tools =
     (let cache_paths =
        (if primary_language \<in> set [''JavaScript'', ''TypeScript''] then [''.npm/'', ''node_modules/'']
         else if primary_language = ''Python'' then [''.cache/pip/'', ''__pycache__/'', ''.pytest_cache/'']
         else if primary_language \<in> set [''Java'', ''Kotlin''] then [''.m2/repository/'', ''.gradle/'']
         else if primary_language = ''Go'' then [''.cache/go-build/'', ''.go/'']
         else [])
      in \<lparr>cc_key = ''$CI_COMMIT_REF_SLUG'', cc_paths = cache_paths, cc_policy = ''pull-push''\<rparr>)"

definition generate_before_script :: "string \<Rightarrow> string list \<Rightarrow> string list \<Rightarrow> string list" where
  "generate_before_script primary_language build_tools frameworks =
     (if primary_language \<in> set [''JavaScript'', ''TypeScript''] then
        (if ''npm'' \<in> set build_tools then [''npm ci --cache .npm --prefer-offline'']
         else if ''yarn'' \<in> set build_tools then [''yarn install --frozen-lockfile --cache-folder .yarn'']
         else if ''pnpm'' \<in> set build_tools then [''pnpm install --frozen-lockfile'']
         else [])
      else if primary_language = ''Python'' then
        [''python -m pip install --upgrade pip'',
         ''pip install -r requirements.txt --cache-dir .cache/pip'']
      else if primary_language \<in> set [''Java'', ''Kotlin''] \<and> ''maven'' \<in> set build_tools then
        [''mvn dependency:go-offline $MAVEN_CLI_OPTS'']
      else [])"

text \<open>
  The script line of the two f-string build and test templates: the template's own
  \<open>    - \<close> followed by the commands, each prefixed with \<open>    - \<close> again and joined by
  line breaks (\<open>chr(10).join(f'    - {cmd}' for cmd in cmds)\<close>).
\<close>

definition script_line :: "string list \<Rightarrow> string" where
  "script_line cmds = ''    - '' @ py_join [nl] (map (\<lambda>cmd. ''    - '' @ cmd) cmds)"

definition generate_build_job :: "string \<Rightarrow> string list \<Rightarrow> string list \<Rightarrow> string" where
  \<open>generate_build_job primary_language build_tools frameworks =
     (let fallback = py_block
        [ ''build:''
        , ''  stage: build''
        , ''  script:''
        , ''    - echo "'' @ msg_configure_build @ ''"''
        , ''  artifacts:''
        , ''    paths:''
        , ''      - "build/"''
        , ''    expire_in: 1 hour''
        ]
      in
      if primary_language \<in> set [''JavaScript'', ''TypeScript''] then
        (let script_commands =
           (if ''React'' \<in> set frameworks \<or> ''Vue.js'' \<in> set frameworks \<or>
               ''Angular'' \<in> set frameworks \<or> ''Next.js'' \<in> set frameworks
            then [''npm run build'']
            else [''npm run build || echo "No build script found"''])
         in py_block
          [ ''build:''
          , ''  stage: build''
          , ''  script:''
          , script_line script_commands
          , ''  artifacts:''
          , ''    paths:''
          , ''      - dist/''
          , ''      - build/''
          , ''      - .next/''
          , ''      - out/''
          , ''    expire_in: 1 hour''
          , ''  only:''
          , ''    - branches''
          ])
      else if primary_language = ''Python'' then
        (let script_commands =
           [''python -m compileall .''] @
           (if ''Django'' \<in> set frameworks
            then [''python manage.py collectstatic --noinput'',
                  ''python manage.py check --deploy'']
            else [])
         in py_block
          [ ''build:''
          , ''  stage: build''
          , ''  script:''
          , script_line script_commands
          , ''  artifacts:''
          , ''    paths:''
          , ''      - staticfiles/''
          , ''      - "*.pyc"''
          , ''    expire_in: 1 hour''
          ])
      else if primary_language \<in> set [''Java'', ''Kotlin''] then
        (if ''maven'' \<in> set build_tools then py_block
          [ ''build:''
          , ''  stage: build''
          , ''  script:''
          , ''    - mvn clean compile $MAVEN_CLI_OPTS''
          , ''    - mvn package -DskipTests $MAVEN_CLI_OPTS''
          , ''  artifacts:''
          , ''    paths:''
          , ''      - target/*.jar''
          , ''      - target/*.war''
          , ''    expire_in: 1 hour''
          ]
         else if ''gradle'' \<in> set build_tools then py_block
          [ ''build:''
          , ''  stage: build''
          , ''  script:''
          , ''    - ./gradlew clean build -x test --no-daemon''
          , ''  artifacts:''
          , ''    paths:''
          , ''      - build/libs/*.jar''
          , ''    expire_in: 1 hour''
          ]
         else fallback)
      else if primary_language = ''Go'' then py_block
          [ ''build:''
          , ''  stage: build''
          , ''  script:''
          , ''    - go mod download''
          , ''    - go build -v -o app ./...''
          , ''  artifacts:''
          , ''    paths:''
          , ''      - app''
          , ''    expire_in: 1 hour''
          ]
      else fallback)\<close>

definition generate_test_job :: "string \<Rightarrow> string list \<Rightarrow> string list \<Rightarrow> string" where
  \<open>generate_test_job primary_language build_tools frameworks =
     (let fallback = py_block
        [ ''test:''
        , ''  stage: test''
        , ''  script:''
        , ''    - echo "'' @ msg_configure_tests @ ''"''
        ]
      in
      if primary_language \<in> set [''JavaScript'', ''TypeScript''] then
        (let test_commands =
           (if ''React'' \<in> set frameworks then [''npm test -- --coverage --watchAll=false --ci'']
            else if ''Vue.js'' \<in> set frameworks then [''npm run test:unit'']
            else if ''Angular'' \<in> set frameworks
              then [''npm run test -- --watch=false --browsers=ChromeHeadless --code-coverage'']
            else [''npm test''])
         in py_block
          [ ''test:''
          , ''  stage: test''
          , ''  script:''
          , script_line test_commands
          , ''  artifacts:''
          , ''    reports:''
          , ''      junit: junit.xml''
          , ''      coverage_report:''
          , ''        coverage_format: cobertura''
          , ''        path: coverage/cobertura-coverage.xml''
          , ''    paths:''
          , ''      - coverage/''
          , ''    when: always''
          , ''  coverage: \'/Lines'' @ [CHR 0x5C] @ ''s*:'' @ [CHR 0x5C] @ ''s*('' @ [CHR 0x5C] @
              ''d+'' @ [CHR 0x5C] @ ''.?'' @ [CHR 0x5C] @ ''d*)%/'' @ [CHR 0x27]
          ])
      else if primary_language = ''Python'' then
        (if ''Django'' \<in> set frameworks then py_block
          [ ''test:''
          , ''  stage: test''
          , ''  script:''
          , ''    - coverage run --source=\'.\' manage.py test --keepdb''
          , ''    - coverage xml''
          , ''    - coverage report''
          , ''  artifacts:''
          , ''    reports:''
          , ''      junit: test-results.xml''
          , ''      coverage_report:''
          , ''        coverage_format: cobertura''
          , ''        path: coverage.xml''
          , ''    when: always''
          , ''  coverage: \'/TOTAL.+ ([0-9]{1,3}%)/'' @ [CHR 0x27]
          ]
         else py_block
          [ ''test:''
          , ''  stage: test''
          , ''  script:''
          , ''    - pytest --junitxml=test-results.xml --cov=. --cov-report=xml --cov-report=term''
          , ''  artifacts:''
          , ''    reports:''
          , ''      junit: test-results.xml''
          , ''      coverage_report:''
          , ''        coverage_format: cobertura''
          , ''        path: coverage.xml''
          , ''    when: always''
          , ''  coverage: \'/TOTAL.+ ([0-9]{1,3}%)/'' @ [CHR 0x27]
          ])
      else if primary_language \<in> set [''Java'', ''Kotlin''] then
        (if ''maven'' \<in> set build_tools then py_block
          [ ''test:''
          , ''  stage: test''
          , ''  script:''
          , ''    - mvn test $MAVEN_CLI_OPTS''
          , ''    - mvn jacoco:report $MAVEN_CLI_OPTS''
          , ''  artifacts:''
          , ''    reports:''
          , ''      junit: target/surefire-reports/*.xml''
          , ''    paths:''
          , ''      - target/site/jacoco/''
          , ''    when: always''
          ]
         else if ''gradle'' \<in> set build_tools then py_block
          [ ''test:''
          , ''  stage: test''
          , ''  script:''
          , ''    - ./gradlew test jacocoTestReport --no-daemon''
          , ''  artifacts:''
          , ''    reports:''
          , ''      junit: build/test-results/test/*.xml''
          , ''    paths:''
          , ''      - build/reports/jacoco/test/html/''
          , ''    when: always''
          ]
         else fallback)
      else if primary_language = ''Go'' then py_block
          [ ''test:''
          , ''  stage: test''
          , ''  script:''
          , ''    - go test -v ./... -coverprofile=coverage.out''
          , ''    - go tool cover -func=coverage.out''
          , ''  artifacts:''
          , ''    paths:''
          , ''      - coverage.out''
          , ''    when: always''
          , ''  coverage: \'/total:.*?([0-9.]+)%/'' @ [CHR 0x27]
          ]
      else fallback)\<close>

definition generate_quality_job :: "string \<Rightarrow> string list \<Rightarrow> string" where
  \<open>generate_quality_job primary_language frameworks =
     (if primary_language \<in> set [''JavaScript'', ''TypeScript''] then py_block
        [ ''code-quality:''
        , ''  stage: quality''
        , ''  script:''
        , ''    - npm run lint || npx eslint . --ext .js,.jsx,.ts,.tsx --format gitlab --output-file eslint-report.json || true''
        , ''    - npx prettier --check . || true''
        , ''  artifacts:''
        , ''    reports:''
        , ''      codequality: eslint-report.json''
        , ''    when: always''
        , ''  allow_failure: true''
        ]
      else if primary_language = ''Python'' then py_block
        [ ''code-quality:''
        , ''  stage: quality''
        , ''  script:''
        , ''    - pip install flake8 black mypy''
        , ''    - flake8 . --format=json --output-file=flake8-report.json || true''
        , ''    - black --check . || true''
        , ''    - mypy . --ignore-missing-imports || true''
        , ''  artifacts:''
        , ''    reports:''
        , ''      codequality: flake8-report.json''
        , ''    when: always''
        , ''  allow_failure: true''
        ]
      else if primary_language \<in> set [''Java'', ''Kotlin''] then py_block
        [ ''code-quality:''
        , ''  stage: quality''
        , ''  script:''
        , ''    - mvn checkstyle:check $MAVEN_CLI_OPTS || true''
        , ''    - mvn pmd:check $MAVEN_CLI_OPTS || true''
        , ''  allow_failure: true''
        ]
      else if primary_language = ''Go'' then py_block
        [ ''code-quality:''
        , ''  stage: quality''
        , ''  script:''
        , ''    - go fmt ./...''
        , ''    - go vet ./...''
        , ''    - go install golang.org/x/lint/golint@latest''
        , ''    - golint ./... || true''
        , ''  allow_failure: true''
        ]
      else py_block
        [ ''code-quality:''
        , ''  stage: quality''
        , ''  script:''
        , ''    - echo "'' @ msg_configure_quality @ ''"''
        , ''  allow_failure: true''
        ])\<close>

definition generate_sonarqube_job :: "string \<Rightarrow> string" where
  \<open>generate_sonarqube_job primary_language = py_block
        [ ''sonarqube-check:''
        , ''  stage: quality''
        , ''  image: sonarsource/sonar-scanner-cli:latest''
        , ''  variables:''
        , ''    SONAR_HOST_URL: "${SONAR_HOST_URL}"''
        , ''    SONAR_TOKEN: "${SONAR_TOKEN}"''
        , ''  script:''
        , ''    - sonar-scanner''
        , ''      -Dsonar.projectKey=$CI_PROJECT_NAME''
        , ''      -Dsonar.sources=.''
        , ''      -Dsonar.host.url=$SONAR_HOST_URL''
        , ''      -Dsonar.login=$SONAR_TOKEN''
        , ''  allow_failure: true''
        , ''  only:''
        , ''    - main''
        , ''    - develop''
        ]\<close>

definition generate_package_job :: "string \<Rightarrow> string list \<Rightarrow> string" where
  \<open>generate_package_job primary_language frameworks = py_block
        [ ''package:''
        , ''  stage: package''
        , ''  script:''
        , ''    - echo "'' @ msg_packaging @ ''"''
        , ''    - tar -czf application.tar.gz dist/ build/ staticfiles/ target/ app || true''
        , ''  artifacts:''
        , ''    paths:''
        , ''      - application.tar.gz''
        , ''    expire_in: 1 week''
        , ''  only:''
        , ''    - main''
        , ''    - develop''
        ]\<close>

definition generate_nexus_upload_job :: "string \<Rightarrow> string" where
  \<open>generate_nexus_upload_job primary_language = py_block
        [ ''nexus-upload:''
        , ''  stage: package''
        , ''  script:''
        , ''    - echo "'' @ msg_uploading_to @ '' Nexus Repository"''
        , ''    - |''
        , ''      curl -v -u $NEXUS_USER:$NEXUS_PASSWORD '' @ [CHR 0x5C]
        , ''        --upload-file application.tar.gz '' @ [CHR 0x5C]
        , ''        $NEXUS_URL/repository/releases/$CI_PROJECT_NAME/$CI_COMMIT_TAG/application.tar.gz''
        , ''  only:''
        , ''    - tags''
        , ''  when: manual''
        ]\<close>

definition generate_docker_build_job :: "string \<Rightarrow> string" where
  \<open>generate_docker_build_job repo_name = py_block
        [ ''docker-build:''
        , ''  stage: docker-build''
        , ''  image: docker:24-cli''
        , ''  services:''
        , ''    - docker:24-dind''
        , ''  variables:''
        , ''    DOCKER_TLS_CERTDIR: "/certs"''
        , ''    DOCKER_DRIVER: overlay2''
        , ''  before_script:''
        , ''    - docker login -u $CI_REGISTRY_USER -p $CI_REGISTRY_PASSWORD $CI_REGISTRY''
        , ''  script:''
        , ''    - echo "Building Docker image with multi-stage build..."''
        , ''    - docker build''
        , ''      --build-arg CI_COMMIT_SHA=$CI_COMMIT_SHA''
        , ''      --build-arg CI_COMMIT_REF_NAME=$CI_COMMIT_REF_NAME''
        , ''      --cache-from $CI_REGISTRY_IMAGE:latest''
        , ''      -t $CI_REGISTRY_IMAGE:'' @ py_lower repo_name @ ''-$CI_COMMIT_SHA''
        , ''      -t $CI_REGISTRY_IMAGE:latest''
        , ''      .''
        , ''    - docker push $CI_REGISTRY_IMAGE:'' @ py_lower repo_name @ ''-$CI_COMMIT_SHA''
        , ''    - docker push $CI_REGISTRY_IMAGE:latest''
        , ''    - |''
        , ''      if [ "$CI_COMMIT_BRANCH" == "main" ]; then''
        , ''        docker tag $CI_REGISTRY_IMAGE:'' @ py_lower repo_name @ ''-$CI_COMMIT_SHA $CI_REGISTRY_IMAGE:stable''
        , ''        docker push $CI_REGISTRY_IMAGE:stable''
        , ''      fi''
        , ''  after_script:''
        , ''    - docker system prune -f''
        , ''  only:''
        , ''    - main''
        , ''    - develop''
        ]\<close>

definition generate_docker_security_scan_job :: "string \<Rightarrow> string" where
  \<open>generate_docker_security_scan_job repo_name = py_block
        [ ''docker-security-scan:''
        , ''  stage: docker-build''
        , ''  image:''
        , ''    name: aquasec/trivy:latest''
        , ''    entrypoint: [""]''
        , ''  script:''
        , ''    - trivy image''
        , ''      --format template''
        , ''      --template "@contrib/gitlab.tpl"''
        , ''      --output gl-container-scanning-report.json''
        , ''      $CI_REGISTRY_IMAGE:'' @ py_lower repo_name @ ''-$CI_COMMIT_SHA''
        , ''  artifacts:''
        , ''    reports:''
        , ''      container_scanning: gl-container-scanning-report.json''
        , ''  dependencies:''
        , ''    - docker-build''
        , ''  allow_failure: true''
        , ''  only:''
        , ''    - main''
        , ''    - develop''
        ]\<close>

definition generate_deployment_jobs :: "string \<Rightarrow> bool \<Rightarrow> string" where
  \<open>generate_deployment_jobs repo_name has_dockerfile =
     (let image_ref =
        (if has_dockerfile then ''$CI_REGISTRY_IMAGE:'' @ py_lower repo_name @ ''-$CI_COMMIT_SHA''
         else ''application.tar.gz'')
      in py_block
        [ ''deploy-staging:''
        , ''  stage: deploy-staging''
        , ''  image: bitnami/kubectl:latest''
        , ''  script:''
        , ''    - echo "'' @ msg_deploying_to @ '' staging '' @ msg_environment @ ''"''
        , ''    - kubectl config use-context staging''
        , ''    - |''
        , ''      if [ "'' @ str_of_bool has_dockerfile @ ''" == "True" ]; then''
        , ''        kubectl set image deployment/'' @ py_lower repo_name @ '' '' @ py_lower repo_name @ ''='' @ image_ref
        , ''        kubectl rollout status deployment/'' @ py_lower repo_name
        , ''      else''
        , ''        echo "'' @ msg_deploying_without @ '' Docker ('' @ msg_for_example_on @ '' VM)"''
        , ''        # '' @ msg_add_commands
        , ''      fi''
        , ''  environment:''
        , ''    name: staging''
        , ''    url: https://staging.'' @ py_lower repo_name @ ''.com''
        , ''  only:''
        , ''    - develop''
        , ''  when: manual''
        , ''''
        , ''deploy-production:''
        , ''  stage: deploy-production''
        , ''  image: bitnami/kubectl:latest''
        , ''  script:''
        , ''    - echo "'' @ msg_deploying_to @ '' production '' @ msg_environment @ ''"''
        , ''    - kubectl config use-context production''
        , ''    - |''
        , ''      if [ "'' @ str_of_bool has_dockerfile @ ''" == "True" ]; then''
        , ''        kubectl set image deployment/'' @ py_lower repo_name @ '' '' @ py_lower repo_name @ ''='' @ image_ref
        , ''        kubectl rollout status deployment/'' @ py_lower repo_name
        , ''      else''
        , ''        echo "'' @ msg_deploying_without @ '' Docker ('' @ msg_for_example_on @ '' VM)"''
        , ''        # '' @ msg_add_commands
        , ''      fi''
        , ''  environment:''
        , ''    name: production''
        , ''    url: https://'' @ py_lower repo_name @ ''.com''
        , ''  only:''
        , ''    - main''
        , ''  when: manual''
        ])\<close>

text \<open>
  \<open>generate_gitlab_pipeline\<close>, in three steps as the source takes them: the stage list and
  the dict for the head of the file; the job texts appended after the head, in order; the
  whole text. \<open>yaml.dump\<close> belongs to the YAML library and is a parameter. The progress
  line the function prints does not reach its result and is left out.
\<close>

definition pipeline_stages :: "bool \<Rightarrow> string list" where
  "pipeline_stages has_dockerfile =
     [''build'', ''test'', ''quality'', ''package''] @
     (if has_dockerfile then [''docker-build'', ''deploy-staging'', ''deploy-production'']
      else [''deploy-staging'', ''deploy-production''])"

definition pipeline_head :: "analysis_result \<Rightarrow> pipeline_dict" where
  "pipeline_head analysis_result =
     (let tech_stack = ar_tech_stack analysis_result;
          primary_language = ts_primary_language tech_stack;
          build_tools = ts_build_tools tech_stack;
          frameworks = ts_frameworks tech_stack;
          has_dockerfile = ts_has_dockerfile tech_stack;
          version_info = ts_version_info tech_stack;
          (docker_image, variables) =
            get_docker_image_and_variables primary_language frameworks version_info
      in \<lparr>pd_stages = pipeline_stages has_dockerfile,
          pd_variables = variables,
          pd_image = docker_image,
          pd_cache = generate_cache_config primary_language build_tools,
          pd_before_script = generate_before_script primary_language build_tools frameworks\<rparr>)"

definition pipeline_jobs :: "pipeline_generator \<Rightarrow> analysis_result \<Rightarrow> string list" where
  "pipeline_jobs self analysis_result =
     (let tech_stack = ar_tech_stack analysis_result;
          repository = ar_repository analysis_result;
          primary_language = ts_primary_language tech_stack;
          build_tools = ts_build_tools tech_stack;
          frameworks = ts_frameworks tech_stack;
          has_tests = ts_has_tests tech_stack;
          has_dockerfile = ts_has_dockerfile tech_stack
      in
        [py_block [''# ==================== BUILD STAGE ====================''],
         generate_build_job primary_language build_tools frameworks] @
        (if has_tests then
           [py_block [''# ==================== TEST STAGE ====================''],
            generate_test_job primary_language build_tools frameworks]
         else []) @
        [py_block [''# ==================== CODE QUALITY STAGE ====================''],
         generate_quality_job primary_language frameworks] @
        (if sonarqube_enabled self then
           [py_block [''# SonarQube '' @ msg_analysis],
            generate_sonarqube_job primary_language]
         else []) @
        [py_block [''# ==================== PACKAGE STAGE ====================''],
         generate_package_job primary_language frameworks] @
        (if nexus_enabled self then
           [py_block [''# '' @ msg_uploading_to @ '' Nexus''],
            generate_nexus_upload_job primary_language]
         else []) @
        (if has_dockerfile then
           [py_block [''# ==================== DOCKER BUILD STAGE ====================''],
            generate_docker_build_job (r_name repository),
            py_block [''# Docker Security Scan''],
            generate_docker_security_scan_job (r_name repository)]
         else []) @
        [py_block [''# ==================== DEPLOYMENT STAGES ====================''],
         generate_deployment_jobs (r_name repository) has_dockerfile])"

definition generate_gitlab_pipeline ::
    "pipeline_generator \<Rightarrow> (pipeline_dict \<Rightarrow> string) \<Rightarrow> analysis_result \<Rightarrow> string" where
  "generate_gitlab_pipeline self yaml_dump analysis_result =
     yaml_dump (pipeline_head analysis_result) @ concat (pipeline_jobs self analysis_result)"

section \<open>Reading a generated pipeline text\<close>

text \<open>
  The generator emits text, so the jobs of a pipeline are read back from it the way the
  YAML layout of the templates spells them: a job starts at a line in the first column
  that ends with a colon (blank lines and \<open>#\<close> comment lines are not jobs), its name is
  that line without the colon, and its settings are the indented lines up to the next job.
\<close>

definition is_job_header :: "string \<Rightarrow> bool" where
  "is_job_header l = (l \<noteq> [] \<and> hd l \<noteq> CHR '' '' \<and> hd l \<noteq> CHR ''#'' \<and> last l = CHR '':'')"

definition is_indented :: "string \<Rightarrow> bool" where
  "is_indented l = (l \<noteq> [] \<and> hd l = CHR '' '')"

type_synonym job = "string \<times> string list"

fun jobs_of :: "string list \<Rightarrow> job list" where
  "jobs_of [] = []"
| "jobs_of (l # ls) =
     (if is_job_header l
      then (butlast l, filter is_indented (takeWhile (\<lambda>x. \<not> is_job_header x) ls)) # jobs_of ls
      else jobs_of ls)"

definition job_name :: "job \<Rightarrow> string" where
  "job_name j = fst j"

text \<open>The value of the job's own \<open>stage:\<close> key (two spaces of indentation), if it has one.\<close>

definition job_stage :: "job \<Rightarrow> string option" where
  "job_stage j =
     (case filter (\<lambda>l. startswith l ''  stage: '') (snd j) of
        [] \<Rightarrow> None
      | l # _ \<Rightarrow> Some (drop 9 l))"

definition job_allow_failure :: "job \<Rightarrow> bool" where
  "job_allow_failure j = (''  allow_failure: true'' \<in> set (snd j))"

text \<open>The jobs of the text the generator appends after the head of the file.\<close>

definition emitted_jobs :: "pipeline_generator \<Rightarrow> analysis_result \<Rightarrow> job list" where
  "emitted_jobs self analysis_result =
     jobs_of (split_lines (concat (pipeline_jobs self analysis_result)))"

section \<open>Composing the jobs of a text from its pieces\<close>

text \<open>
  The generator appends its pieces one after the other, and every piece ends with a line
  break. The lines of a piece are then the lines of its text without the empty last one,
  and the jobs of the whole text are the jobs of the pieces, as long as no piece opens
  with indented lines that would fall to the job before it.
\<close>

definition ends_nl :: "string \<Rightarrow> bool" where
  "ends_nl c = (c \<noteq> [] \<and> last c = nl)"

definition chunk_lines :: "string \<Rightarrow> string list" where
  "chunk_lines c = butlast (split_lines c)"

definition no_stray :: "string list \<Rightarrow> bool" where
  "no_stray ls = (filter is_indented (takeWhile (\<lambda>x. \<not> is_job_header x) ls) = [])"

text \<open>What the claims observe of a job: its name, its stage and whether it may fail.\<close>

definition job_summary :: "job \<Rightarrow> string \<times> string option \<times> bool" where
  "job_summary j = (job_name j, job_stage j, job_allow_failure j)"

definition chunk_ok :: "string \<Rightarrow> (string \<times> string option \<times> bool) list \<Rightarrow> bool" where
  "chunk_ok c S = (ends_nl c \<and> no_stray (chunk_lines c) \<and> map job_summary (jobs_of (chunk_lines c)) = S)"

section \<open>Invariant of the counting loop\<close>

text \<open>What the counting loop keeps true of its two accumulators.\<close>

definition counted :: "(string \<times> nat) list \<times> nat \<Rightarrow> bool" where
  "counted acc =
     (distinct (map fst (fst acc)) \<and> set (map fst (fst acc)) \<subseteq> set (map snd language_extensions) \<and>
      list_all (\<lambda>kv. 0 < snd kv) (fst acc) \<and> sum_list (map snd (fst acc)) = snd acc)"

section \<open>Sample inputs\<close>

text \<open>
  Two analysis results of one Django project with a Dockerfile: the second is a later run
  of the same analysis, in another temporary directory and with other derived fields.
\<close>

definition shop_analysis :: "bool \<Rightarrow> analysis_result" where
  "shop_analysis tests =
     \<lparr>ar_repository = \<lparr>r_url = ''https://github.com/acme/Shop'', r_platform = ''github'',
                       r_owner = ''acme'', r_name = ''Shop'', r_full_name = ''acme/Shop''\<rparr>,
      ar_tech_stack = \<lparr>ts_primary_language = ''Python'', ts_language_stats = [],
                       ts_version_info = \<lparr>vi_language_version = ''3.9'', vi_framework_versions = []\<rparr>,
                       ts_frameworks = [''Django''], ts_build_tools = [''pip''],
                       ts_package_managers = [''pip''],
                       ts_has_tests = tests, ts_has_dockerfile = True\<rparr>,
      ar_confidence_level = 9 / 10, ar_recommendations = [], ar_file_structure = [],
      ar_analysis_method = ''git'', ar_temp_dir = Some ''/tmp/self_deploy_a1''\<rparr>"

definition shop_analysis_rerun :: "bool \<Rightarrow> analysis_result" where
  "shop_analysis_rerun tests =
     (shop_analysis tests)
       \<lparr>ar_confidence_level := 1, ar_recommendations := [''add tests''],
        ar_analysis_method := ''api'', ar_temp_dir := Some ''/tmp/self_deploy_b2''\<rparr>"

section \<open>Sample repositories\<close>






section \<open>The test signal as the specification words it\<close>

text \<open>\<open>s.split(sep)\<close> for a separator of one character.\<close>

fun split_on :: "char \<Rightarrow> string \<Rightarrow> string list" where
  "split_on sep [] = [ [] ]"
| "split_on sep (c # cs) =
     (if c = sep then [] # split_on sep cs
      else (case split_on sep cs of [] \<Rightarrow> [ [c] ] | l # ls \<Rightarrow> (c # l) # ls))"

text \<open>
  The specification's reading of the two signals, written from its words for comparison
  with \<open>check_tests\<close>: some record's filename matches one of the test-naming patterns, or
  some record's path has one of the test directory names as a path component.
\<close>

definition spec_has_tests :: "file_info list \<Rightarrow> bool" where
  "spec_has_tests file_structure =
     list_ex (\<lambda>file_info.
        list_ex (\<lambda>pattern. match_affix (fst pattern) (snd pattern) (fi_name file_info)) test_patterns \<or>
        list_ex (\<lambda>test_dir. test_dir \<in> set (split_on CHR ''/'' (fi_path file_info))) test_directories)
      file_structure"

definition testimonials_page :: file_info where
  "testimonials_page =
     \<lparr>fi_name = ''testimonials.html'', fi_type = File, fi_extension = Some ''.html'',
      fi_path = ''/testimonials.html'', fi_full_path = ''/repo/testimonials.html'',
      fi_size = Some 120\<rparr>"

definition nested_test_directory :: file_info where
  "nested_test_directory =
     \<lparr>fi_name = ''test'', fi_type = Directory, fi_extension = None,
      fi_path = ''/src/test'', fi_full_path = ''/repo/src/test'', fi_size = None\<rparr>"

definition unknown_profile :: tech_stack where
  "unknown_profile =
     \<lparr>ts_primary_language = ''Unknown'', ts_language_stats = [],
      ts_version_info = \<lparr>vi_language_version = ''latest'', vi_framework_versions = []\<rparr>,
      ts_frameworks = [], ts_build_tools = [], ts_package_managers = [],
      ts_has_tests = False, ts_has_dockerfile = False\<rparr>"

section \<open>The confidence formula as the specification words it\<close>

text \<open>
  Some record carries the name of a known manifest; and the score as the specification
  composes it: base 0.4, plus 0.15 for a manifest, 0.1 for build tools, 0.1 for tests,
  0.1 for frameworks and 0.15 for a known primary language, clamped to 1.
\<close>

definition manifest_present :: "file_info list \<Rightarrow> bool" where
  "manifest_present files =
     list_ex (\<lambda>f. fi_name f \<in> set [''package.json'', ''requirements.txt'', ''pom.xml'',
                                        ''build.gradle'', ''Cargo.toml'', ''go.mod'', ''pyproject.toml''])
       files"

definition confidence_formula :: "bool \<Rightarrow> bool \<Rightarrow> bool \<Rightarrow> bool \<Rightarrow> bool \<Rightarrow> rat" where
  "confidence_formula manifest tools tests frameworks known =
     min 1 (4 / 10 + (if manifest then 15 / 100 else 0) + (if tools then 1 / 10 else 0)
              + (if tests then 1 / 10 else 0) + (if frameworks then 1 / 10 else 0)
              + (if known then 15 / 100 else 0))"

text \<open>
  A Go repository: \<open>app.go\<close> with one line and a \<open>go.mod\<close> that asks for Go 1.21.3.
  A second file system holds the same repository with a \<open>go.mod\<close> without a \<open>go\<close>
  directive, and in a third \<open>go.mod\<close> cannot be read.
\<close>

definition go_mod_text :: string where
  "go_mod_text = ''module example.com/app'' @ [nl, nl] @ ''go 1.21.3'' @ [nl]"

definition go_repo_read :: "string \<Rightarrow> string \<Rightarrow> string result" where
  "go_repo_read go_mod p =
     (if p = ''/repo/go.mod'' then Inr go_mod
      else if p = ''/repo/app.go'' then Inr (''package main'' @ [nl])
      else Inl OSError)"

definition go_repo_env :: "string result \<Rightarrow> env" where
  "go_repo_env go_mod =
     \<lparr>path_exists = (\<lambda>p. p = ''/repo/go.mod'' \<or> p = ''/repo/app.go''),
      path_getsize = (\<lambda>p. Inr 40),
      read_text = (\<lambda>p. if p = ''/repo/go.mod'' then go_mod else go_repo_read [] p),
      read_text_ignore = (\<lambda>p. if p = ''/repo/go.mod'' then go_mod else go_repo_read [] p),
      json_loads = (\<lambda>s. Inl JSONDecodeError),
      et_parse = (\<lambda>p. Inl ParseError)\<rparr>"

definition go_repo_files :: "file_info list" where
  "go_repo_files =
     [\<lparr>fi_name = ''app.go'', fi_type = File, fi_extension = Some ''.go'', fi_path = ''/app.go'',
       fi_full_path = ''/repo/app.go'', fi_size = Some 13\<rparr>,
      \<lparr>fi_name = ''go.mod'', fi_type = File, fi_extension = Some ''.mod'', fi_path = ''/go.mod'',
       fi_full_path = ''/repo/go.mod'', fi_size = Some 40\<rparr>]"

definition go_profile :: "string \<Rightarrow> tech_stack" where
  "go_profile version =
     \<lparr>ts_primary_language = ''Go'',
      ts_language_stats = [(''Go'', \<lparr>ls_lines = 1, ls_percentage = 100\<rparr>)],
      ts_version_info = \<lparr>vi_language_version = version, vi_framework_versions = []\<rparr>,
      ts_frameworks = [], ts_build_tools = [''go''], ts_package_managers = [''go''],
      ts_has_tests = False, ts_has_dockerfile = False\<rparr>"

text \<open>
  The dict \<open>{Go: 10 lines, Markdown: 500 lines}\<close> as the counting loop would hold it, and
  the statistics made of it: sorted by line count, Markdown first.
\<close>

definition go_markdown_lines :: "(string \<times> nat) list" where
  "go_markdown_lines = [(''Go'', 10), (''Markdown'', 500)]"

definition markdown_go_stats :: "(string \<times> language_stat) list" where
  "markdown_go_stats =
     [(''Markdown'', \<lparr>ls_lines = 500, ls_percentage = 98\<rparr>),
      (''Go'', \<lparr>ls_lines = 10, ls_percentage = 2\<rparr>)]"

text \<open>
  Two hostile file systems: in the first no file can be read; in the second every file
  reads as a fragment that neither parser accepts.
\<close>

definition unreadable_env :: env where
  "unreadable_env =
     \<lparr>path_exists = (\<lambda>p. True), path_getsize = (\<lambda>p. Inl OSError),
      read_text = (\<lambda>p. Inl UnicodeDecodeError), read_text_ignore = (\<lambda>p. Inl OSError),
      json_loads = (\<lambda>s. Inl JSONDecodeError), et_parse = (\<lambda>p. Inl OSError)\<rparr>"

definition malformed_env :: env where
  "malformed_env =
     \<lparr>path_exists = (\<lambda>p. True), path_getsize = (\<lambda>p. Inr 9),
      read_text = (\<lambda>p. Inr ''{ <name: ''), read_text_ignore = (\<lambda>p. Inr ''{ <name: ''),
      json_loads = (\<lambda>s. Inl JSONDecodeError), et_parse = (\<lambda>p. Inl ParseError)\<rparr>"

section \<open>The stage list\<close>

text \<open>
  C1. For every analysis result the stage list of the generated pipeline is the fixed
  prefix build, test, quality, package, then docker-build exactly when the profile has a
  Dockerfile, then deploy-staging and deploy-production. With a Dockerfile docker-build
  occurs once, directly before deploy-staging; without one it does not occur; the two
  lists differ in length by one and are equal once docker-build is removed.
\<close>

theorem stage_list_shape:
  "pd_stages (pipeline_head ar) =
     [''build'', ''test'', ''quality'', ''package''] @
     (if ts_has_dockerfile (ar_tech_stack ar) then [''docker-build''] else []) @
     [''deploy-staging'', ''deploy-production'']
   \<and> count_list (pd_stages (pipeline_head ar)) ''docker-build'' =
       (if ts_has_dockerfile (ar_tech_stack ar) then 1 else 0)
   \<and> pipeline_stages True =
       take 4 (pipeline_stages False) @ [''docker-build''] @ drop 4 (pipeline_stages False)
   \<and> drop 4 (pipeline_stages False) = [''deploy-staging'', ''deploy-production'']
   \<and> length (pipeline_stages True) = length (pipeline_stages False) + 1
   \<and> removeAll ''docker-build'' (pipeline_stages True) = pipeline_stages False"
  by (simp add: pipeline_head_def pipeline_stages_def Let_def split: prod.splits)

theorem stage_list_shape_witness:
  "pd_stages (pipeline_head
     \<lparr>ar_repository = \<lparr>r_url = ''https://github.com/acme/shop'', r_platform = ''github'',
                     r_owner = ''acme'', r_name = ''shop'', r_full_name = ''acme/shop''\<rparr>,
      ar_tech_stack = \<lparr>ts_primary_language = ''Go'', ts_language_stats = [],
                     ts_version_info = \<lparr>vi_language_version = ''1.21'', vi_framework_versions = []\<rparr>,
                     ts_frameworks = [], ts_build_tools = [''go''], ts_package_managers = [''go''],
                     ts_has_tests = False, ts_has_dockerfile = True\<rparr>,
      ar_confidence_level = 7 / 10, ar_recommendations = [], ar_file_structure = [],
      ar_analysis_method = ''git'', ar_temp_dir = None\<rparr>) =
   [''build'', ''test'', ''quality'', ''package'', ''docker-build'', ''deploy-staging'',
    ''deploy-production'']"
  using stage_list_shape
    [of "\<lparr>ar_repository = \<lparr>r_url = ''https://github.com/acme/shop'', r_platform = ''github'',
                     r_owner = ''acme'', r_name = ''shop'', r_full_name = ''acme/shop''\<rparr>,
      ar_tech_stack = \<lparr>ts_primary_language = ''Go'', ts_language_stats = [],
                     ts_version_info = \<lparr>vi_language_version = ''1.21'', vi_framework_versions = []\<rparr>,
                     ts_frameworks = [], ts_build_tools = [''go''], ts_package_managers = [''go''],
                     ts_has_tests = False, ts_has_dockerfile = True\<rparr>,
      ar_confidence_level = 7 / 10, ar_recommendations = [], ar_file_structure = [],
      ar_analysis_method = ''git'', ar_temp_dir = None\<rparr>"]
  by simp

section \<open>Lines and jobs of the generated text\<close>

lemma lower_char_nl: "lower_char c = nl \<longleftrightarrow> c = nl"
proof (cases "map_of (zip ''ABCDEFGHIJKLMNOPQRSTUVWXYZ'' ''abcdefghijklmnopqrstuvwxyz'') c")
  case None
  then show ?thesis by (simp add: lower_char_def)
next
  case (Some d)
  then have "(c, d) \<in> set (zip ''ABCDEFGHIJKLMNOPQRSTUVWXYZ'' ''abcdefghijklmnopqrstuvwxyz'')"
    by (rule map_of_SomeD)
  then have "c \<noteq> nl \<and> d \<noteq> nl" by auto
  with Some show ?thesis by (simp add: lower_char_def)
qed

lemma nl_lower_char: "nl = lower_char c \<longleftrightarrow> c = nl"
  using lower_char_nl [of c] by auto

lemma nl_py_lower: "nl \<in> set (py_lower s) \<longleftrightarrow> nl \<in> set s"
  by (induction s) (auto simp: py_lower_def lower_char_nl nl_lower_char)

lemma split_lines_nonempty: "split_lines s \<noteq> []"
  by (induction s) (auto split: list.splits)

lemma split_lines_append_nl: "split_lines (a @ nl # b) = split_lines a @ split_lines b"
proof (induction a)
  case Nil
  then show ?case by simp
next
  case (Cons c a)
  obtain l ls where "split_lines a = l # ls"
    using split_lines_nonempty [of a] by (cases "split_lines a") auto
  with Cons show ?case by simp
qed

lemma split_lines_no_nl: "nl \<notin> set l \<Longrightarrow> split_lines l = [l]"
  by (induction l) (auto split: list.splits)

lemma split_lines_block_lines:
  "split_lines (concat (map (\<lambda>l. l @ [nl]) ls) @ rest) = concat (map split_lines ls) @ split_lines rest"
  by (induction ls) (simp_all add: split_lines_append_nl)

lemma split_lines_py_block:
  "split_lines (py_block ls) = [] # concat (map split_lines ls) @ [ [] ]"
  using split_lines_block_lines [of ls "[]"] by (simp add: py_block_def)


lemma split_lines_chunk_append:
  assumes "ends_nl c"
  shows "split_lines (c @ rest) = chunk_lines c @ split_lines rest"
proof -
  from assms obtain c' where c: "c = c' @ [nl]"
    by (metis ends_nl_def append_butlast_last_id)
  have "split_lines (c' @ nl # rest) = split_lines c' @ split_lines rest"
    by (rule split_lines_append_nl)
  moreover have "split_lines (c' @ nl # []) = split_lines c' @ split_lines []"
    by (rule split_lines_append_nl)
  ultimately show ?thesis by (simp add: c chunk_lines_def)
qed

lemma split_lines_concat_chunks:
  "list_all ends_nl cs \<Longrightarrow> split_lines (concat cs) = concat (map chunk_lines cs) @ [ [] ]"
  by (induction cs) (simp_all add: split_lines_chunk_append)

lemma no_stray_append: "no_stray xs \<Longrightarrow> no_stray ys \<Longrightarrow> no_stray (xs @ ys)"
  by (induction xs) (auto simp: no_stray_def split: if_splits)

lemma jobs_of_append: "no_stray ys \<Longrightarrow> jobs_of (xs @ ys) = jobs_of xs @ jobs_of ys"
proof (induction xs)
  case Nil
  then show ?case by simp
next
  case (Cons x xs)
  have "filter is_indented (takeWhile (\<lambda>x. \<not> is_job_header x) (xs @ ys)) =
        filter is_indented (takeWhile (\<lambda>x. \<not> is_job_header x) xs)"
    using Cons.prems by (induction xs) (auto simp: no_stray_def split: if_splits)
  with Cons show ?case by simp
qed

lemma no_stray_blank: "no_stray [ [] ]"
  by (simp add: no_stray_def is_indented_def is_job_header_def)

lemma jobs_of_blank: "jobs_of [ [] ] = []"
  by (simp add: is_job_header_def)

lemma no_stray_concat: "list_all no_stray Ls \<Longrightarrow> no_stray (concat Ls @ [ [] ])"
  by (induction Ls) (simp_all add: no_stray_blank no_stray_append)

lemma jobs_of_concat:
  "list_all no_stray Ls \<Longrightarrow> jobs_of (concat Ls @ [ [] ]) = concat (map jobs_of Ls)"
  by (induction Ls) (simp_all add: is_job_header_def jobs_of_append no_stray_concat)

lemma jobs_of_chunks:
  assumes "list_all2 chunk_ok cs Ss"
  shows "map job_summary (jobs_of (split_lines (concat cs))) = concat Ss"
proof -
  from assms have e: "list_all ends_nl cs"
    by (induction rule: list_all2_induct) (simp_all add: chunk_ok_def)
  from assms have n: "list_all no_stray (map chunk_lines cs)"
    by (induction rule: list_all2_induct) (simp_all add: chunk_ok_def)
  from assms have s: "concat (map (\<lambda>c. map job_summary (jobs_of (chunk_lines c))) cs) = concat Ss"
    by (induction rule: list_all2_induct) (simp_all add: chunk_ok_def)
  have "jobs_of (split_lines (concat cs)) = concat (map jobs_of (map chunk_lines cs))"
    using e n by (simp add: split_lines_concat_chunks jobs_of_concat)
  then show ?thesis using s by (simp add: map_concat comp_def)
qed

lemma ends_nl_py_block: "ends_nl (py_block b)"
  by (induction b) (auto simp: ends_nl_def py_block_def)

lemma chunk_lines_py_block: "chunk_lines (py_block b) = [] # concat (map split_lines b)"
  by (simp add: chunk_lines_def split_lines_py_block butlast_append)

lemma lines_no_nl: "list_all (\<lambda>l. nl \<notin> set l) b \<Longrightarrow> concat (map split_lines b) = b"
  by (induction b) (simp_all add: split_lines_no_nl)

lemmas job_eval = no_stray_def is_indented_def is_job_header_def job_summary_def job_name_def
  job_stage_def job_allow_failure_def

lemma chunk_ok_block:
  "list_all (\<lambda>l. nl \<notin> set l) b \<Longrightarrow>
   chunk_ok (py_block b) S = (no_stray b \<and> map job_summary (jobs_of b) = S)"
  by (simp add: chunk_ok_def ends_nl_py_block chunk_lines_py_block lines_no_nl no_stray_def
                is_indented_def is_job_header_def)

lemma chunk_quality:
  "chunk_ok (generate_quality_job primary_language frameworks) [(''code-quality'', Some ''quality'', True)]"
  unfolding generate_quality_job_def
  by (simp add: chunk_ok_block job_eval msg_configure_quality_def)

lemma chunk_sonarqube:
  "chunk_ok (generate_sonarqube_job primary_language) [(''sonarqube-check'', Some ''quality'', True)]"
  unfolding generate_sonarqube_job_def
  by (simp add: chunk_ok_block job_eval)

lemma chunk_package:
  "chunk_ok (generate_package_job primary_language frameworks) [(''package'', Some ''package'', False)]"
  unfolding generate_package_job_def
  by (simp add: chunk_ok_block job_eval msg_packaging_def)

lemma chunk_nexus:
  "chunk_ok (generate_nexus_upload_job primary_language) [(''nexus-upload'', Some ''package'', False)]"
  unfolding generate_nexus_upload_job_def
  by (simp add: chunk_ok_block job_eval msg_uploading_to_def)

lemma chunk_docker_build:
  "nl \<notin> set repo_name \<Longrightarrow>
   chunk_ok (generate_docker_build_job repo_name) [(''docker-build'', Some ''docker-build'', False)]"
  unfolding generate_docker_build_job_def
  by (simp add: chunk_ok_block job_eval nl_py_lower)

lemma chunk_docker_scan:
  "nl \<notin> set repo_name \<Longrightarrow>
   chunk_ok (generate_docker_security_scan_job repo_name)
     [(''docker-security-scan'', Some ''docker-build'', True)]"
  unfolding generate_docker_security_scan_job_def
  by (simp add: chunk_ok_block job_eval nl_py_lower)

lemma chunk_deployment:
  "nl \<notin> set repo_name \<Longrightarrow>
   chunk_ok (generate_deployment_jobs repo_name has_dockerfile)
     [(''deploy-staging'', Some ''deploy-staging'', False),
      (''deploy-production'', Some ''deploy-production'', False)]"
  unfolding generate_deployment_jobs_def
  by (simp add: chunk_ok_block job_eval nl_py_lower Let_def str_of_bool_def
        msg_deploying_to_def msg_environment_def msg_deploying_without_def
        msg_for_example_on_def msg_add_commands_def)

lemma script_line_one: "script_line [a] = ''    -     - '' @ a"
  by (simp add: script_line_def)

lemma script_line_three:
  "script_line [a, b, c] = (''    -     - '' @ a) @ nl # (''    - '' @ b) @ nl # (''    - '' @ c)"
  by (simp add: script_line_def)

lemma chunk_build_django:
  \<open>chunk_ok (py_block
          [ ''build:''
          , ''  stage: build''
          , ''  script:''
          , script_line [''python -m compileall .'', ''python manage.py collectstatic --noinput'',
                  ''python manage.py check --deploy'']
          , ''  artifacts:''
          , ''    paths:''
          , ''      - staticfiles/''
          , ''      - "*.pyc"''
          , ''    expire_in: 1 hour''
          ]) [(''build'', Some ''build'', False)]\<close>
proof -
  have \<open>py_block
          [ ''build:''
          , ''  stage: build''
          , ''  script:''
          , script_line [''python -m compileall .'', ''python manage.py collectstatic --noinput'',
                  ''python manage.py check --deploy'']
          , ''  artifacts:''
          , ''    paths:''
          , ''      - staticfiles/''
          , ''      - "*.pyc"''
          , ''    expire_in: 1 hour''
          ] = py_block
          [ ''build:''
          , ''  stage: build''
          , ''  script:''
          , ''    -     - python -m compileall .''
          , ''    - python manage.py collectstatic --noinput''
          , ''    - python manage.py check --deploy''
          , ''  artifacts:''
          , ''    paths:''
          , ''      - staticfiles/''
          , ''      - "*.pyc"''
          , ''    expire_in: 1 hour''
          ]\<close>
    by (simp add: py_block_def script_line_three)
  then show ?thesis
    by (simp add: chunk_ok_block job_eval)
qed

lemma chunk_build:
  "chunk_ok (generate_build_job primary_language build_tools frameworks) [(''build'', Some ''build'', False)]"
  unfolding generate_build_job_def
  by (simp add: chunk_build_django chunk_ok_block job_eval msg_configure_build_def Let_def
        script_line_one)

lemma chunk_test:
  "chunk_ok (generate_test_job primary_language build_tools frameworks) [(''test'', Some ''test'', False)]"
  unfolding generate_test_job_def
  by (simp add: chunk_ok_block job_eval msg_configure_tests_def Let_def script_line_one)

lemma chunk_comment:
  "nl \<notin> set t \<Longrightarrow> chunk_ok (py_block [CHR ''#'' # t]) []"
  by (simp add: chunk_ok_block job_eval)

section \<open>The jobs of a generated pipeline\<close>

text \<open>
  The table of the jobs the generator emits, in order, with stage and failure setting. The
  repository name is interpolated into the docker and deployment jobs, so it must not
  hold a line break (no repository name on GitHub or GitLab does).
\<close>

lemma emitted_job_table:
  assumes "nl \<notin> set (r_name (ar_repository ar))"
  shows "map job_summary (emitted_jobs self ar) =
     [(''build'', Some ''build'', False)] @
     (if ts_has_tests (ar_tech_stack ar) then [(''test'', Some ''test'', False)] else []) @
     [(''code-quality'', Some ''quality'', True)] @
     (if sonarqube_enabled self then [(''sonarqube-check'', Some ''quality'', True)] else []) @
     [(''package'', Some ''package'', False)] @
     (if nexus_enabled self then [(''nexus-upload'', Some ''package'', False)] else []) @
     (if ts_has_dockerfile (ar_tech_stack ar)
      then [(''docker-build'', Some ''docker-build'', False),
            (''docker-security-scan'', Some ''docker-build'', True)]
      else []) @
     [(''deploy-staging'', Some ''deploy-staging'', False),
      (''deploy-production'', Some ''deploy-production'', False)]"
proof -
  let ?Ss = "[ [], [(''build'', Some ''build'', False)] ] @
     (if ts_has_tests (ar_tech_stack ar) then [ [], [(''test'', Some ''test'', False)] ] else []) @
     [ [], [(''code-quality'', Some ''quality'', True)] ] @
     (if sonarqube_enabled self then [ [], [(''sonarqube-check'', Some ''quality'', True)] ] else []) @
     [ [], [(''package'', Some ''package'', False)] ] @
     (if nexus_enabled self then [ [], [(''nexus-upload'', Some ''package'', False)] ] else []) @
     (if ts_has_dockerfile (ar_tech_stack ar)
      then [ [], [(''docker-build'', Some ''docker-build'', False)],
             [], [(''docker-security-scan'', Some ''docker-build'', True)] ]
      else []) @
     [ [], [(''deploy-staging'', Some ''deploy-staging'', False),
            (''deploy-production'', Some ''deploy-production'', False)] ]"
  have "list_all2 chunk_ok (pipeline_jobs self ar) ?Ss"
    using assms
    by (simp add: pipeline_jobs_def Let_def list_all2_append chunk_comment chunk_build chunk_test
          chunk_quality chunk_sonarqube chunk_package chunk_nexus chunk_docker_build
          chunk_docker_scan chunk_deployment msg_analysis_def msg_uploading_to_def)
  then have "map job_summary (jobs_of (split_lines (concat (pipeline_jobs self ar)))) = concat ?Ss"
    by (rule jobs_of_chunks)
  then show ?thesis
    by (simp add: emitted_jobs_def)
qed

text \<open>
  C5. For every analysis result, whatever its primary language (the four supported
  ecosystems and the fallback alike), every job of the generated pipeline whose stage is
  quality carries \<open>allow_failure: true\<close>; and there is such a job, code-quality.
\<close>

theorem quality_jobs_allow_failure:
  assumes "nl \<notin> set (r_name (ar_repository ar))"
  shows "(\<forall>j \<in> set (emitted_jobs self ar). job_stage j = Some ''quality'' \<longrightarrow> job_allow_failure j)
       \<and> (\<exists>j \<in> set (emitted_jobs self ar). job_name j = ''code-quality'' \<and> job_stage j = Some ''quality'')"
proof -
  let ?T = "map job_summary (emitted_jobs self ar)"
  have a: "\<forall>s \<in> set ?T. fst (snd s) = Some ''quality'' \<longrightarrow> snd (snd s)"
    by (auto simp: emitted_job_table [OF assms])
  have b: "(''code-quality'', Some ''quality'', True) \<in> set ?T"
    by (auto simp: emitted_job_table [OF assms])
  from a have "\<forall>j \<in> set (emitted_jobs self ar). job_stage j = Some ''quality'' \<longrightarrow> job_allow_failure j"
    by (simp add: job_summary_def)
  moreover from b have "\<exists>j \<in> set (emitted_jobs self ar). job_name j = ''code-quality'' \<and> job_stage j = Some ''quality''"
    by (auto simp: job_summary_def)
  ultimately show ?thesis by simp
qed

theorem quality_jobs_allow_failure_witness:
  "nl \<notin> set (r_name (ar_repository (shop_analysis True)))
   \<and> list_all (\<lambda>j. job_stage j = Some ''quality'' \<longrightarrow> job_allow_failure j)
         (emitted_jobs PipelineGenerator (shop_analysis True))
   \<and> (\<exists>j \<in> set (emitted_jobs PipelineGenerator (shop_analysis True)).
         job_name j = ''code-quality'' \<and> job_stage j = Some ''quality'')"
proof -
  have h: "nl \<notin> set (r_name (ar_repository (shop_analysis True)))"
    by (simp add: shop_analysis_def)
  from quality_jobs_allow_failure [OF h, of PipelineGenerator] h show ?thesis
    by (simp add: list_all_iff)
qed

text \<open>
  C10. The generated pipeline has a job named test exactly when the profile's has_tests
  flag is set, although the stage list always names the test stage; without tests no job
  of the pipeline is in the test stage. (The jobs are those of the text appended after the
  head of the file; the head has the keys stages, variables, image, cache and
  before_script only.)
\<close>

theorem test_job_iff_has_tests:
  assumes "nl \<notin> set (r_name (ar_repository ar))"
  shows "(''test'' \<in> set (map job_name (emitted_jobs self ar)) \<longleftrightarrow> ts_has_tests (ar_tech_stack ar))
       \<and> ''test'' \<in> set (pd_stages (pipeline_head ar))
       \<and> (\<not> ts_has_tests (ar_tech_stack ar) \<longrightarrow>
            (\<forall>j \<in> set (emitted_jobs self ar). job_stage j \<noteq> Some ''test''))"
proof -
  let ?T = "map job_summary (emitted_jobs self ar)"
  have n: "map job_name (emitted_jobs self ar) = map fst ?T"
    by (simp add: job_summary_def)
  have s: "map job_stage (emitted_jobs self ar) = map (\<lambda>s. fst (snd s)) ?T"
    by (simp add: job_summary_def)
  have "''test'' \<in> set (map fst ?T) \<longleftrightarrow> ts_has_tests (ar_tech_stack ar)"
    by (auto simp: emitted_job_table [OF assms])
  then have 1: "''test'' \<in> set (map job_name (emitted_jobs self ar)) \<longleftrightarrow> ts_has_tests (ar_tech_stack ar)"
    by (simp only: n)
  have 2: "''test'' \<in> set (pd_stages (pipeline_head ar))"
    by (simp add: pipeline_head_def pipeline_stages_def Let_def split: prod.splits)
  have "\<not> ts_has_tests (ar_tech_stack ar) \<longrightarrow> Some ''test'' \<notin> set (map (\<lambda>s. fst (snd s)) ?T)"
    by (auto simp: emitted_job_table [OF assms])
  then have "\<not> ts_has_tests (ar_tech_stack ar) \<longrightarrow> Some ''test'' \<notin> set (map job_stage (emitted_jobs self ar))"
    by (simp only: s)
  then have 3: "\<not> ts_has_tests (ar_tech_stack ar) \<longrightarrow>
            (\<forall>j \<in> set (emitted_jobs self ar). job_stage j \<noteq> Some ''test'')"
    by (metis image_eqI set_map)
  from 1 2 3 show ?thesis by blast
qed

theorem test_job_iff_has_tests_witness:
  "nl \<notin> set (r_name (ar_repository (shop_analysis False)))
   \<and> \<not> ts_has_tests (ar_tech_stack (shop_analysis False))
   \<and> ''test'' \<notin> set (map job_name (emitted_jobs PipelineGenerator (shop_analysis False)))
   \<and> ''test'' \<in> set (pd_stages (pipeline_head (shop_analysis False)))
   \<and> list_all (\<lambda>j. job_stage j \<noteq> Some ''test'') (emitted_jobs PipelineGenerator (shop_analysis False))"
proof -
  have h: "nl \<notin> set (r_name (ar_repository (shop_analysis False)))"
    by (simp add: shop_analysis_def)
  have t: "\<not> ts_has_tests (ar_tech_stack (shop_analysis False))"
    by (simp add: shop_analysis_def)
  from test_job_iff_has_tests [OF h, of PipelineGenerator] h t show ?thesis
    by (simp add: list_all_iff)
qed

text \<open>
  C8. The generated text is a function of the profile fields the generator reads
  (primary language, build tools, frameworks, the two flags, the language version) and of
  the repository name: two analysis results that agree on them, whatever else differs
  between the runs (temporary directory, confidence, recommendations, file list), give
  the same head, the same jobs in the same order and the same text. The model takes no
  clock and no random source because the source function reads none.
\<close>

theorem pipeline_depends_on_profile_only:
  assumes "ts_primary_language (ar_tech_stack a) = ts_primary_language (ar_tech_stack b)"
    and "ts_build_tools (ar_tech_stack a) = ts_build_tools (ar_tech_stack b)"
    and "ts_frameworks (ar_tech_stack a) = ts_frameworks (ar_tech_stack b)"
    and "ts_has_tests (ar_tech_stack a) = ts_has_tests (ar_tech_stack b)"
    and "ts_has_dockerfile (ar_tech_stack a) = ts_has_dockerfile (ar_tech_stack b)"
    and "vi_language_version (ts_version_info (ar_tech_stack a)) =
         vi_language_version (ts_version_info (ar_tech_stack b))"
    and "r_name (ar_repository a) = r_name (ar_repository b)"
  shows "pipeline_head a = pipeline_head b
       \<and> pipeline_jobs self a = pipeline_jobs self b
       \<and> generate_gitlab_pipeline self yaml_dump a = generate_gitlab_pipeline self yaml_dump b"
proof -
  have h: "pipeline_head a = pipeline_head b"
    using assms
    by (simp add: pipeline_head_def get_docker_image_and_variables_def Let_def)
  have j: "pipeline_jobs self a = pipeline_jobs self b"
    using assms by (simp add: pipeline_jobs_def Let_def)
  from h j show ?thesis by (simp add: generate_gitlab_pipeline_def)
qed

theorem pipeline_depends_on_profile_only_witness:
  "shop_analysis True \<noteq> shop_analysis_rerun True
   \<and> pipeline_head (shop_analysis True) = pipeline_head (shop_analysis_rerun True)
   \<and> pipeline_jobs PipelineGenerator (shop_analysis True) =
       pipeline_jobs PipelineGenerator (shop_analysis_rerun True)
   \<and> generate_gitlab_pipeline PipelineGenerator (\<lambda>d. py_join [nl] (pd_stages d)) (shop_analysis True) =
       generate_gitlab_pipeline PipelineGenerator (\<lambda>d. py_join [nl] (pd_stages d))
         (shop_analysis_rerun True)"
proof -
  have d: "shop_analysis True \<noteq> shop_analysis_rerun True"
    by (simp add: shop_analysis_def shop_analysis_rerun_def)
  have "ar_tech_stack (shop_analysis_rerun True) = ar_tech_stack (shop_analysis True)"
    and "ar_repository (shop_analysis_rerun True) = ar_repository (shop_analysis True)"
    by (simp_all add: shop_analysis_rerun_def)
  then show ?thesis
    using d pipeline_depends_on_profile_only
      [of "shop_analysis True" "shop_analysis_rerun True" PipelineGenerator
          "\<lambda>d. py_join [nl] (pd_stages d)"]
    by simp
qed

section \<open>Failures and the counting loop\<close>

lemma try_except_total: "\<exists>v. try_except body fallback = Inr v"
  by (cases body) (simp_all add: try_except_def)

lemma try_except_Inl [simp]: "try_except (Inl e) fallback = Inr fallback"
  by (simp add: try_except_def)

lemma try_except_Inr [simp]: "try_except (Inr v) fallback = Inr v"
  by (simp add: try_except_def)

lemma and_then_Inl [simp]: "and_then (Inl e) f = Inl e"
  by (simp add: and_then_def)

lemma and_then_Inr [simp]: "and_then (Inr v) f = f v"
  by (simp add: and_then_def)

lemma count_file_lines_total: "\<exists>n. count_file_lines env file_info project_dir = Inr n"
  unfolding count_file_lines_def by (rule try_except_total)

lemma dict_add_keys: "fst ` set (dict_add k n kvs) = insert k (fst ` set kvs)"
proof (induction kvs)
  case Nil
  then show ?case by simp
next
  case (Cons kv kvs)
  obtain k' v where kv: "kv = (k', v)" by (cases kv)
  show ?case
  proof (cases "k' = k")
    case True
    then show ?thesis by (simp add: kv)
  next
    case False
    then show ?thesis using Cons.IH by (simp add: kv insert_commute)
  qed
qed

lemma dict_add_distinct: "distinct (map fst kvs) \<Longrightarrow> distinct (map fst (dict_add k n kvs))"
proof (induction kvs)
  case Nil
  then show ?case by simp
next
  case (Cons kv kvs)
  obtain k' v where kv: "kv = (k', v)" by (cases kv)
  from Cons show ?case
    using dict_add_keys [of k n kvs] by (auto simp: kv)
qed

lemma dict_add_sum: "sum_list (map snd (dict_add k n kvs)) = sum_list (map snd kvs) + n"
  by (induction kvs) auto

lemma dict_add_positive:
  "0 < n \<Longrightarrow> list_all (\<lambda>kv. 0 < snd kv) kvs \<Longrightarrow> list_all (\<lambda>kv. 0 < snd kv) (dict_add k n kvs)"
  by (induction kvs) auto

lemma count_loop_total: "\<exists>acc'. count_loop env project_dir files acc = Inr acc'"
proof (induction files arbitrary: acc)
  case Nil
  then show ?case by simp
next
  case (Cons f files)
  obtain ll t where acc: "acc = (ll, t)" by (cases acc)
  obtain n where n: "count_file_lines env f project_dir = Inr n"
    using count_file_lines_total by blast
  show ?case
    using Cons.IH by (simp add: acc n Let_def split: option.splits)
qed

lemma map_of_language: "map_of language_extensions e = Some l \<Longrightarrow> l \<in> set (map snd language_extensions)"
  by (metis map_of_SomeD image_eqI set_map snd_conv)

lemma count_loop_counted:
  "count_loop env project_dir files acc = Inr acc' \<Longrightarrow> counted acc \<Longrightarrow> counted acc'"
proof (induction files arbitrary: acc)
  case Nil
  then show ?case by simp
next
  case (Cons f files)
  obtain ll t where acc: "acc = (ll, t)" by (cases acc)
  obtain n where n: "count_file_lines env f project_dir = Inr n"
    using count_file_lines_total by blast
  show ?case
  proof (cases "fi_type f \<noteq> File")
    case True
    with Cons show ?thesis by (simp add: acc)
  next
    case False
    show ?thesis
    proof (cases "map_of language_extensions (py_lower (case fi_extension f of None \<Rightarrow> [] | Some e \<Rightarrow> e))")
      case None
      with False Cons show ?thesis by (simp add: acc Let_def)
    next
      case (Some l)
      show ?thesis
      proof (cases "0 < n")
        case True
        have "counted (dict_add l n ll, t + n)"
          using Cons.prems(2) True map_of_language [OF Some]
          by (simp add: counted_def acc dict_add_keys dict_add_distinct dict_add_sum dict_add_positive)
        moreover have "count_loop env project_dir files (dict_add l n ll, t + n) = Inr acc'"
          using Cons.prems(1) False Some True by (simp add: acc n Let_def)
        ultimately show ?thesis using Cons.IH by blast
      next
        case F: False
        have "count_loop env project_dir files (ll, t) = Inr acc'"
          using Cons.prems(1) False Some F by (simp add: acc n Let_def)
        then show ?thesis using Cons.IH Cons.prems(2) acc by blast
      qed
    qed
  qed
qed

lemma counted_start: "counted ([], 0)"
  by (simp add: counted_def)

section \<open>The percentages of the language statistics\<close>

















section \<open>The test signal\<close>

lemma lower_testimonials: "py_lower ''testimonials.html'' = ''testimonials.html''"
  by (simp add: py_lower_def lower_char_def)

lemma lower_pats:
  "py_lower ''test'' = ''test''" "py_lower ''.py'' = ''.py''" "py_lower [] = []"
  "py_lower ''_test.py'' = ''_test.py''"  "py_lower ''.test.js'' = ''.test.js''"
  "py_lower ''.spec.js'' = ''.spec.js''" "py_lower ''.test.ts'' = ''.test.ts''"
  "py_lower ''.spec.ts'' = ''.spec.ts''" "py_lower ''Test.java'' = ''test.java''"
  "py_lower ''_test.go'' = ''_test.go''" "py_lower ''test_'' = ''test_''"
  "py_lower ''.test.jsx'' = ''.test.jsx''" "py_lower ''.spec.tsx'' = ''.spec.tsx''"
  by (simp_all add: py_lower_def lower_char_def)

lemma testimonials_no_pattern:
  "\<not> list_ex (\<lambda>pattern. match_affix (fst pattern) (snd pattern) ''testimonials.html'') test_patterns"
  by (simp add: test_patterns_def match_affix_def Let_def lower_testimonials lower_pats endswith_def)

lemma test_no_pattern:
  "\<not> list_ex (\<lambda>pattern. match_affix (fst pattern) (snd pattern) ''test'') test_patterns"
  by (simp add: test_patterns_def match_affix_def Let_def lower_pats endswith_def)

lemma testimonials_prefix:
  "list_ex (\<lambda>test_dir. contains ''/testimonials.html'' (''/'' @ test_dir @ ''/'') \<or>
                       startswith ''/testimonials.html'' (''/'' @ test_dir)) test_directories"
  by (simp add: test_directories_def)

lemma testimonials_segments: "split_on CHR ''/'' ''/testimonials.html'' = [ [], ''testimonials.html'']"
  by simp

lemma nested_segments: "split_on CHR ''/'' ''/src/test'' = [ [], ''src'', ''test'']"
  by simp

lemma nested_no_prefix:
  "\<not> list_ex (\<lambda>test_dir. contains ''/src/test'' (''/'' @ test_dir @ ''/'') \<or>
                       startswith ''/src/test'' (''/'' @ test_dir)) test_directories"
  by (simp add: test_directories_def)

text \<open>
  C9. \<open>check_tests\<close> does not decide what the claim states. The directory test
  \<open>path.startswith('/' + test_dir)\<close> has no boundary after the directory name, so a file
  \<open>/testimonials.html\<close> counts as a test although no pattern matches its name and no
  component of its path is a test directory; and the record of a nested directory
  \<open>/src/test\<close> does not count, because \<open>'/test/' in path\<close> wants the slash after it.
\<close>

theorem check_tests_prefix_without_boundary:
  "check_tests [testimonials_page] \<and> \<not> spec_has_tests [testimonials_page]
   \<and> \<not> check_tests [nested_test_directory] \<and> spec_has_tests [nested_test_directory]"
proof -
  have 1: "check_tests [testimonials_page]"
    using testimonials_prefix
    by (simp add: check_tests_def is_test_record_def testimonials_page_def Let_def)
  have 2: "\<not> spec_has_tests [testimonials_page]"
    using testimonials_no_pattern
    by (simp add: spec_has_tests_def testimonials_page_def testimonials_segments test_directories_def)
  have 3: "\<not> check_tests [nested_test_directory]"
    using test_no_pattern nested_no_prefix
    by (simp add: check_tests_def is_test_record_def nested_test_directory_def Let_def)
  have 4: "spec_has_tests [nested_test_directory]"
    by (simp add: spec_has_tests_def nested_test_directory_def nested_segments test_directories_def)
  from 1 2 3 4 show ?thesis by blast
qed

section \<open>The detection never raises\<close>

lemma override_version_total:
  assumes "\<And>p. \<exists>v. extract p = Inr v"
  shows "\<exists>v. override_version file_structure project_dir filename extract current = Inr v"
proof (cases "find_file file_structure filename")
  case None
  then show ?thesis by (simp add: override_version_def)
next
  case (Some p)
  obtain v where "extract p = Inr v" using assms by blast
  with Some show ?thesis
    by (simp add: override_version_def split: option.splits)
qed

lemma manifest_frameworks_total:
  assumes "\<And>p. \<exists>v. analyze p = Inr v"
  shows "\<exists>v. manifest_frameworks file_structure project_dir filename analyze = Inr v"
  using assms by (simp add: manifest_frameworks_def split: option.splits)

lemma extract_total:
  "\<exists>v. extract_java_version_from_pom env p = Inr v"
  "\<exists>v. extract_java_version_from_gradle env p = Inr v"
  "\<exists>v. extract_go_version env p = Inr v"
  "\<exists>v. extract_python_version_from_pyproject env p = Inr v"
  "\<exists>v. extract_node_version env p = Inr v"
  unfolding extract_java_version_from_pom_def extract_java_version_from_gradle_def
    extract_go_version_def extract_python_version_from_pyproject_def extract_node_version_def
  by (rule try_except_total)+

lemma analyze_total:
  "\<exists>v. analyze_package_json env p = Inr v"
  "\<exists>v. analyze_requirements_txt env p = Inr v"
  "\<exists>v. analyze_pyproject_toml env p = Inr v"
  "\<exists>v. analyze_gradle env p = Inr v"
  "\<exists>v. analyze_go_mod env p = Inr v"
  unfolding analyze_package_json_def analyze_requirements_txt_def analyze_pyproject_toml_def
    analyze_gradle_def analyze_go_mod_def
  by (rule try_except_total)+

lemma analyze_pom_xml_total: "\<exists>v. analyze_pom_xml env p = Inr v"
  by (simp add: analyze_pom_xml_def Let_def split: sum.splits)

lemma override_total:
  "\<exists>v. override_version fs pd fn (extract_java_version_from_pom env) c = Inr v"
  "\<exists>v. override_version fs pd fn (extract_java_version_from_gradle env) c = Inr v"
  "\<exists>v. override_version fs pd fn (extract_go_version env) c = Inr v"
  "\<exists>v. override_version fs pd fn (extract_python_version_from_pyproject env) c = Inr v"
  "\<exists>v. override_version fs pd fn (extract_node_version env) c = Inr v"
  by (rule override_version_total, rule extract_total)+

lemma manifest_total:
  "\<exists>v. manifest_frameworks fs pd fn (analyze_package_json env) = Inr v"
  "\<exists>v. manifest_frameworks fs pd fn (analyze_requirements_txt env) = Inr v"
  "\<exists>v. manifest_frameworks fs pd fn (analyze_pyproject_toml env) = Inr v"
  "\<exists>v. manifest_frameworks fs pd fn (analyze_gradle env) = Inr v"
  "\<exists>v. manifest_frameworks fs pd fn (analyze_go_mod env) = Inr v"
  "\<exists>v. manifest_frameworks fs pd fn (analyze_pom_xml env) = Inr v"
  by (rule manifest_frameworks_total, rule analyze_total analyze_pom_xml_total)+

lemma and_then_total:
  assumes "\<exists>a. m = Inr a" and "\<And>a. \<exists>b. f a = Inr b"
  shows "\<exists>b. and_then m f = Inr b"
  using assms by (auto simp: and_then_def)

lemma detect_versions_total:
  "\<exists>v. detect_versions env file_structure project_dir primary_language = Inr v"
proof -
  have "\<exists>v. and_then (override_version file_structure project_dir ''pom.xml''
                       (extract_java_version_from_pom env) d) (\<lambda>v.
             override_version file_structure project_dir ''build.gradle''
               (extract_java_version_from_gradle env) v) = Inr v" for d
    by (rule and_then_total) (rule override_total)+
  then show ?thesis
    unfolding detect_versions_def Let_def
    by (intro and_then_total) (simp_all add: override_total)
qed

lemma detect_frameworks_total:
  "\<exists>v. detect_frameworks env file_structure project_dir primary_language = Inr v"
proof -
  have py: "\<exists>v. and_then (manifest_frameworks file_structure project_dir ''requirements.txt''
                      (analyze_requirements_txt env)) (\<lambda>a.
          and_then (manifest_frameworks file_structure project_dir ''pyproject.toml''
                      (analyze_pyproject_toml env)) (\<lambda>b. Inr (a @ b))) = Inr v"
    by (intro and_then_total manifest_total) simp
  have java: "\<exists>v. and_then (manifest_frameworks file_structure project_dir ''pom.xml''
                      (analyze_pom_xml env)) (\<lambda>a.
          and_then (manifest_frameworks file_structure project_dir ''build.gradle''
                      (analyze_gradle env)) (\<lambda>b. Inr (a @ b))) = Inr v"
    by (intro and_then_total manifest_total) simp
  show ?thesis
    unfolding detect_frameworks_def
    using py java by (intro and_then_total) (simp_all add: manifest_total)
qed

lemma count_lines_by_language_total:
  "\<exists>v. count_lines_by_language env file_structure project_dir = Inr v"
  unfolding count_lines_by_language_def
  by (intro and_then_total count_loop_total) (simp add: case_prod_beta)

lemma detect_tech_stack_total:
  "\<exists>ts. detect_tech_stack env file_structure project_dir = Inr ts"
  unfolding detect_tech_stack_def Let_def
  by (intro and_then_total count_lines_by_language_total detect_versions_total
        detect_frameworks_total) simp

section \<open>The confidence score\<close>

lemma language_names_nonempty: "l \<in> set (map snd language_extensions) \<Longrightarrow> l \<noteq> []"
  by (auto simp: language_extensions_def)

lemma first_not_excluded_mem:
  "first_not_excluded stats = Some l \<Longrightarrow> l \<in> fst ` set stats"
  by (induction stats rule: first_not_excluded.induct) (auto split: if_splits)

lemma detect_primary_language_cases:
  "detect_primary_language stats = ''Unknown'' \<or> detect_primary_language stats \<in> fst ` set stats"
  by (auto simp: detect_primary_language_def dest: first_not_excluded_mem
           split: option.splits list.splits)

lemma language_stats_of_keys: "fst ` set (language_stats_of ll T) \<subseteq> fst ` set ll"
  by (force simp: language_stats_of_def)

lemma count_lines_keys:
  assumes "count_lines_by_language env file_structure project_dir = Inr stats"
  shows "fst ` set stats \<subseteq> set (map snd language_extensions)"
proof -
  obtain ll T where loop: "count_loop env project_dir file_structure ([], 0) = Inr (ll, T)"
    using count_loop_total [of env project_dir file_structure "([], 0)"] by (metis surj_pair)
  have "counted (ll, T)"
    using count_loop_counted [OF loop counted_start] .
  then have "fst ` set ll \<subseteq> set (map snd language_extensions)"
    by (simp add: counted_def)
  moreover have "stats = language_stats_of ll T"
    using assms by (simp add: count_lines_by_language_def loop)
  ultimately show ?thesis using language_stats_of_keys [of ll T] by blast
qed

lemma detect_tech_stack_language:
  assumes "detect_tech_stack env file_structure project_dir = Inr ts"
  shows "ts_primary_language ts \<noteq> []"
proof -
  obtain stats where st: "count_lines_by_language env file_structure project_dir = Inr stats"
    using count_lines_by_language_total by blast
  obtain vi where vi: "detect_versions env file_structure project_dir (detect_primary_language stats) = Inr vi"
    using detect_versions_total by blast
  obtain fw where fw: "detect_frameworks env file_structure project_dir (detect_primary_language stats) = Inr fw"
    using detect_frameworks_total by blast
  have "ts_primary_language ts = detect_primary_language stats"
    using assms by (auto simp: detect_tech_stack_def st vi fw Let_def)
  moreover have "detect_primary_language stats \<noteq> []"
    using detect_primary_language_cases [of stats] count_lines_keys [OF st] language_names_nonempty
    by auto
  ultimately show ?thesis by simp
qed

lemma detect_empty:
  "detect_tech_stack env [] project_dir = Inr unknown_profile"
  by (simp add: detect_tech_stack_def count_lines_by_language_def language_stats_of_def
        detect_primary_language_def detect_versions_def default_versions_def
        detect_frameworks_def analyze_by_file_structure_def sorted_set_def
        detect_build_tools_def detect_package_managers_def check_tests_def check_dockerfile_def
        unknown_profile_def Let_def)

lemma manifest_present_eq:
  "list_ex (\<lambda>config_file. list_ex (\<lambda>f. fi_name f = config_file) files)
     [''package.json'', ''requirements.txt'', ''pom.xml'', ''build.gradle'',
      ''Cargo.toml'', ''go.mod'', ''pyproject.toml''] = manifest_present files"
  by (auto simp: manifest_present_def list_ex_iff)

lemma confidence_eq:
  "calculate_confidence ts files =
   confidence_formula (manifest_present files) (ts_build_tools ts \<noteq> []) (ts_has_tests ts)
     (ts_frameworks ts \<noteq> []) (ts_primary_language ts \<noteq> [] \<and> ts_primary_language ts \<noteq> ''Unknown'')"
  unfolding calculate_confidence_def Let_def manifest_present_eq confidence_formula_def
  by (simp add: min.commute)

lemma confidence_formula_range:
  "0 \<le> confidence_formula a b c d e \<and> confidence_formula a b c d e \<le> 1"
  by (simp add: confidence_formula_def)

section \<open>The Go version\<close>

lemma go_search_1: "re_search match_go_directive go_mod_text = Some ''1.21.3''"
  by (simp add: go_mod_text_def match_go_directive_def lit_def match_version_def
        match_num_dot_num_def is_space_def is_digit_def Let_def)

lemma go_search_2: "re_search match_go_directive (''module example.com/app'' @ [nl]) = None"
  by (simp add: match_go_directive_def lit_def)

lemma match_num_dot_num_nonempty: "match_num_dot_num s = Some v \<Longrightarrow> v \<noteq> []"
  by (auto simp: match_num_dot_num_def Let_def split: if_splits list.splits)

lemma match_version_nonempty: "match_version s = Some v \<Longrightarrow> v \<noteq> []"
  by (auto simp: match_version_def dest: match_num_dot_num_nonempty
           split: option.splits list.splits if_splits)

lemma match_go_directive_nonempty: "match_go_directive s = Some v \<Longrightarrow> v \<noteq> []"
  by (auto simp: match_go_directive_def dest: match_version_nonempty split: option.splits if_splits)

lemma re_search_go_nonempty: "re_search match_go_directive s = Some v \<Longrightarrow> v \<noteq> []"
  by (induction s) (auto dest: match_go_directive_nonempty split: option.splits)

lemma detect_versions_go:
  "detect_versions env file_structure project_dir ''Go'' =
   and_then (override_version file_structure project_dir ''go.mod'' (extract_go_version env) ''1.19'')
     (\<lambda>v. Inr \<lparr>vi_language_version = v, vi_framework_versions = []\<rparr>)"
  by (simp add: detect_versions_def default_versions_def)



section \<open>The detection of the sample Go repository\<close>

lemma go_env_sel:
  "path_exists (go_repo_env g) p = (p = ''/repo/go.mod'' \<or> p = ''/repo/app.go'')"
  "path_getsize (go_repo_env g) p = Inr 40"
  "read_text (go_repo_env g) p = (if p = ''/repo/go.mod'' then g else go_repo_read [] p)"
  "read_text_ignore (go_repo_env g) p = (if p = ''/repo/go.mod'' then g else go_repo_read [] p)"
  by (simp_all add: go_repo_env_def)

lemma go_count:
  "count_lines_by_language (go_repo_env g) go_repo_files (Some ''/repo'') =
   Inr [(''Go'', \<lparr>ls_lines = 1, ls_percentage = 100\<rparr>)]"
  by (simp add: count_lines_by_language_def go_repo_files_def language_extensions_def
        py_lower_def lower_char_def count_file_lines_def truthy_opt_def go_env_sel go_repo_read_def
        significant_lines_def py_strip_def is_space_def language_stats_of_def percentage_of_def
        round_half_even_def Let_def)

lemma go_primary: "detect_primary_language [(''Go'', st)] = ''Go''"
  by (simp add: detect_primary_language_def exclude_languages_def)

lemma go_find:
  "find_file go_repo_files ''go.mod'' = Some ''/repo/go.mod''"
  by (simp add: go_repo_files_def)

lemma go_versions:
  "detect_versions (go_repo_env g) go_repo_files (Some ''/repo'') ''Go'' =
   Inr \<lparr>vi_language_version =
          (case g of Inl e \<Rightarrow> ''1.19''
           | Inr content \<Rightarrow> (case re_search match_go_directive content of None \<Rightarrow> ''1.19'' | Some v \<Rightarrow> v)),
        vi_framework_versions = []\<rparr>"
  by (auto simp: detect_versions_go override_version_def go_find truthy_opt_def extract_go_version_def
        go_env_sel dest: re_search_go_nonempty split: sum.splits option.splits)

lemma go_frameworks:
  "detect_frameworks (go_repo_env g) go_repo_files (Some ''/repo'') ''Go'' =
   Inr (sorted_set (case g of Inl e \<Rightarrow> [] | Inr content \<Rightarrow>
          names_where [(''gin-gonic/gin'', ''Gin''), (''gorilla/mux'', ''Gorilla Mux''),
              (''labstack/echo'', ''Echo''), (''fiber'', ''Fiber''), (''gorm.io/gorm'', ''GORM''),
              (''go-chi/chi'', ''Chi'')] (\<lambda>framework_key. contains content framework_key)))"
  by (simp add: detect_frameworks_def manifest_frameworks_def go_find truthy_opt_def
        analyze_go_mod_def go_env_sel analyze_by_file_structure_def go_repo_files_def Let_def
        split: sum.splits)

lemma lower_go_names: "py_lower ''app.go'' = ''app.go''" "py_lower ''go.mod'' = ''go.mod''"
  by (simp_all add: py_lower_def lower_char_def)

lemma go_build_tools: "detect_build_tools go_repo_files = [''go'']"
  by (simp add: detect_build_tools_def go_repo_files_def sorted_set_def)

lemma go_no_tests: "check_tests go_repo_files = False"
  by (simp add: check_tests_def is_test_record_def go_repo_files_def test_patterns_def
      test_directories_def match_affix_def lower_go_names lower_pats endswith_def Let_def)

lemma go_no_dockerfile: "check_dockerfile go_repo_files = False"
  by (simp add: check_dockerfile_def go_repo_files_def)

lemma go_mod_frameworks:
  "names_where [(''gin-gonic/gin'', ''Gin''), (''gorilla/mux'', ''Gorilla Mux''),
              (''labstack/echo'', ''Echo''), (''fiber'', ''Fiber''), (''gorm.io/gorm'', ''GORM''),
              (''go-chi/chi'', ''Chi'')] (\<lambda>framework_key. contains go_mod_text framework_key) = []"
  by (simp add: names_where_def go_mod_text_def)

lemma go_detect:
  "detect_tech_stack (go_repo_env (Inr go_mod_text)) go_repo_files (Some ''/repo'') =
   Inr (go_profile ''1.21.3'')"
  by (simp add: detect_tech_stack_def go_count go_primary go_versions go_frameworks
        go_mod_frameworks go_search_1 go_build_tools go_no_tests go_no_dockerfile
        detect_package_managers_def sorted_set_def go_profile_def Let_def)


text \<open>
  C4. For every profile and file list the confidence lies between 0 and 1 and is the
  base 0.4, plus 0.15 when some record is named like a known manifest, plus 0.1 when there
  are build tools, plus 0.1 with tests, plus 0.1 when there are frameworks, plus 0.15 when
  the primary language is known, clamped to 1. The source counts a language as known when
  it is neither empty nor \<open>Unknown\<close>; a profile the detector returns never has an empty
  language, so for it known means not \<open>Unknown\<close>. For the empty file list the detector
  returns a profile whose confidence is exactly 0.4.
\<close>

theorem confidence_score:
  "0 \<le> calculate_confidence ts files \<and> calculate_confidence ts files \<le> 1
   \<and> calculate_confidence ts files =
       confidence_formula (manifest_present files) (ts_build_tools ts \<noteq> []) (ts_has_tests ts)
         (ts_frameworks ts \<noteq> []) (ts_primary_language ts \<noteq> [] \<and> ts_primary_language ts \<noteq> ''Unknown'')
   \<and> (detect_tech_stack env file_structure project_dir = Inr ts \<longrightarrow>
        calculate_confidence ts files =
          confidence_formula (manifest_present files) (ts_build_tools ts \<noteq> []) (ts_has_tests ts)
            (ts_frameworks ts \<noteq> []) (ts_primary_language ts \<noteq> ''Unknown''))
   \<and> (\<exists>ts0. detect_tech_stack env [] project_dir = Inr ts0 \<and> calculate_confidence ts0 [] = 4 / 10)"
proof -
  have 1: "0 \<le> calculate_confidence ts files \<and> calculate_confidence ts files \<le> 1"
    by (simp only: confidence_eq confidence_formula_range)
  have 2: "detect_tech_stack env file_structure project_dir = Inr ts \<longrightarrow>
        calculate_confidence ts files =
          confidence_formula (manifest_present files) (ts_build_tools ts \<noteq> []) (ts_has_tests ts)
            (ts_frameworks ts \<noteq> []) (ts_primary_language ts \<noteq> ''Unknown'')"
    using detect_tech_stack_language [of env file_structure project_dir ts]
    by (simp add: confidence_eq)
  have "calculate_confidence unknown_profile [] = 4 / 10"
    by (simp add: confidence_eq confidence_formula_def manifest_present_def unknown_profile_def)
  then have 3: "\<exists>ts0. detect_tech_stack env [] project_dir = Inr ts0 \<and> calculate_confidence ts0 [] = 4 / 10"
    using detect_empty by blast
  from 1 2 3 show ?thesis using confidence_eq by blast
qed

theorem confidence_score_witness:
  "detect_tech_stack (go_repo_env (Inr go_mod_text)) go_repo_files (Some ''/repo'') =
     Inr (go_profile ''1.21.3'')
   \<and> calculate_confidence (go_profile ''1.21.3'') go_repo_files =
       confidence_formula True True False False True
   \<and> calculate_confidence (go_profile ''1.21.3'') go_repo_files = 8 / 10
   \<and> 0 \<le> calculate_confidence (go_profile ''1.21.3'') go_repo_files
   \<and> calculate_confidence (go_profile ''1.21.3'') go_repo_files \<le> 1
   \<and> (\<exists>ts0. detect_tech_stack (go_repo_env (Inr go_mod_text)) [] (Some ''/repo'') = Inr ts0 \<and>
              calculate_confidence ts0 [] = 4 / 10)"
proof -
  have m: "manifest_present go_repo_files"
    by (simp add: manifest_present_def go_repo_files_def)
  have p: "ts_build_tools (go_profile ''1.21.3'') \<noteq> []" "\<not> ts_has_tests (go_profile ''1.21.3'')"
    "ts_frameworks (go_profile ''1.21.3'') = []" "ts_primary_language (go_profile ''1.21.3'') \<noteq> ''Unknown''"
    by (simp_all add: go_profile_def)
  have f: "confidence_formula True True False False True = 8 / 10"
    by (simp add: confidence_formula_def)
  from confidence_score [of "go_profile ''1.21.3''" go_repo_files "go_repo_env (Inr go_mod_text)"
      go_repo_files "Some ''/repo''"] go_detect m p f
  show ?thesis by simp
qed



section \<open>The primary language\<close>

lemma first_not_excluded_filter:
  "first_not_excluded stats =
     (case filter (\<lambda>x. fst x \<notin> set exclude_languages) stats of [] \<Rightarrow> None | x # rest \<Rightarrow> Some (fst x))"
  by (induction stats rule: first_not_excluded.induct) simp_all

lemma language_stats_sorted:
  "sorted_wrt (\<lambda>a b. ls_lines (snd b) \<le> ls_lines (snd a)) (language_stats_of ll T)"
proof -
  have "sorted (map (\<lambda>x. - int (ls_lines (snd x))) (language_stats_of ll T))"
    by (simp add: language_stats_of_def)
  then show ?thesis
    by (simp add: sorted_wrt_map sorted_wrt_iff_nth_less)
qed

lemma sorted_filter_head:
  assumes "sorted_wrt R xs" and "filter P xs = x # rest"
  shows "\<forall>y \<in> set xs. P y \<longrightarrow> y = x \<or> R x y"
proof -
  have "sorted_wrt R (filter P xs)" using assms(1) by (rule sorted_wrt_filter)
  then have "\<forall>y \<in> set rest. R x y" by (simp add: assms(2))
  moreover have "\<forall>y \<in> set xs. P y \<longrightarrow> y \<in> set (filter P xs)" by simp
  ultimately show ?thesis by (auto simp: assms(2))
qed

lemma go_markdown_stats: "language_stats_of go_markdown_lines 510 = markdown_go_stats"
  by (simp add: language_stats_of_def go_markdown_lines_def markdown_go_stats_def percentage_of_def
        round_half_even_def Let_def)

lemma markdown_go_primary: "detect_primary_language markdown_go_stats = ''Go''"
  by (simp add: detect_primary_language_def markdown_go_stats_def exclude_languages_def)

text \<open>
  C2. The language statistics come sorted by line count, largest first, and the primary
  language is the first language in that order that is not one of JSON, YAML, XML,
  Markdown, HTML and CSS, hence one with the most lines among those not excluded; when
  every language present is excluded it is the first of all, one with the most lines;
  for empty statistics it is \<open>Unknown\<close>. For Markdown with 500 lines and Go with 10 it
  is Go.
\<close>

theorem primary_language_selection:
  assumes "stats = language_stats_of language_lines total_lines"
  shows "sorted_wrt (\<lambda>a b. ls_lines (snd b) \<le> ls_lines (snd a)) stats
       \<and> (stats = [] \<longrightarrow> detect_primary_language stats = ''Unknown'')
       \<and> (\<forall>x rest. filter (\<lambda>x. fst x \<notin> set exclude_languages) stats = x # rest \<longrightarrow>
             detect_primary_language stats = fst x \<and>
             (\<forall>y \<in> set stats. fst y \<notin> set exclude_languages \<longrightarrow> ls_lines (snd y) \<le> ls_lines (snd x)))
       \<and> (\<forall>x rest. filter (\<lambda>x. fst x \<notin> set exclude_languages) stats = [] \<and> stats = x # rest \<longrightarrow>
             detect_primary_language stats = fst x \<and>
             (\<forall>y \<in> set stats. ls_lines (snd y) \<le> ls_lines (snd x)))
       \<and> set exclude_languages = {''JSON'', ''YAML'', ''XML'', ''Markdown'', ''HTML'', ''CSS''}
       \<and> detect_primary_language (language_stats_of [(''Markdown'', 500), (''Go'', 10)] 510) = ''Go''"
proof -
  have s: "sorted_wrt (\<lambda>a b. ls_lines (snd b) \<le> ls_lines (snd a)) stats"
    unfolding assms by (rule language_stats_sorted)
  have 2: "stats = [] \<longrightarrow> detect_primary_language stats = ''Unknown''"
    by (simp add: detect_primary_language_def)
  have 3: "\<forall>x rest. filter (\<lambda>x. fst x \<notin> set exclude_languages) stats = x # rest \<longrightarrow>
             detect_primary_language stats = fst x \<and>
             (\<forall>y \<in> set stats. fst y \<notin> set exclude_languages \<longrightarrow> ls_lines (snd y) \<le> ls_lines (snd x))"
  proof (intro allI impI)
    fix x rest
    assume f: "filter (\<lambda>x. fst x \<notin> set exclude_languages) stats = x # rest"
    then have ne: "stats \<noteq> []" by auto
    have a: "detect_primary_language stats = fst x"
      using ne by (simp add: detect_primary_language_def first_not_excluded_filter f)
    have b: "\<forall>y \<in> set stats. fst y \<notin> set exclude_languages \<longrightarrow> ls_lines (snd y) \<le> ls_lines (snd x)"
      using sorted_filter_head [OF s f] by auto
    from a b show "detect_primary_language stats = fst x \<and>
             (\<forall>y \<in> set stats. fst y \<notin> set exclude_languages \<longrightarrow> ls_lines (snd y) \<le> ls_lines (snd x))"
      by simp
  qed
  have 4: "\<forall>x rest. filter (\<lambda>x. fst x \<notin> set exclude_languages) stats = [] \<and> stats = x # rest \<longrightarrow>
             detect_primary_language stats = fst x \<and>
             (\<forall>y \<in> set stats. ls_lines (snd y) \<le> ls_lines (snd x))"
  proof (intro allI impI)
    fix x rest
    assume f: "filter (\<lambda>x. fst x \<notin> set exclude_languages) stats = [] \<and> stats = x # rest"
    from f have filt: "filter (\<lambda>x. fst x \<notin> set exclude_languages) stats = []"
      by (rule conjunct1)
    from f have st: "stats = x # rest"
      by (rule conjunct2)
    have "first_not_excluded stats = None"
      unfolding first_not_excluded_filter filt by simp
    then have a: "detect_primary_language stats = fst x"
      unfolding detect_primary_language_def by (cases x) (simp add: st)
    have b: "\<forall>y \<in> set stats. ls_lines (snd y) \<le> ls_lines (snd x)"
      using s f by auto
    from a b show "detect_primary_language stats = fst x \<and>
             (\<forall>y \<in> set stats. ls_lines (snd y) \<le> ls_lines (snd x))"
      by simp
  qed
  have 5: "set exclude_languages = {''JSON'', ''YAML'', ''XML'', ''Markdown'', ''HTML'', ''CSS''}"
    by (simp add: exclude_languages_def)
  have 6: "detect_primary_language (language_stats_of [(''Markdown'', 500), (''Go'', 10)] 510) = ''Go''"
    by (simp add: language_stats_of_def detect_primary_language_def exclude_languages_def)
  from s 2 3 4 5 6 show ?thesis by blast
qed

theorem primary_language_selection_witness:
  "markdown_go_stats = language_stats_of go_markdown_lines 510
   \<and> filter (\<lambda>x. fst x \<notin> set exclude_languages) markdown_go_stats =
       [(''Go'', \<lparr>ls_lines = 10, ls_percentage = 2\<rparr>)]
   \<and> detect_primary_language markdown_go_stats = ''Go''
   \<and> sorted_wrt (\<lambda>a b. ls_lines (snd b) \<le> ls_lines (snd a)) markdown_go_stats"
proof -
  have e: "markdown_go_stats = language_stats_of go_markdown_lines 510"
    by (simp add: go_markdown_stats)
  have f: "filter (\<lambda>x. fst x \<notin> set exclude_languages) markdown_go_stats =
       [(''Go'', \<lparr>ls_lines = 10, ls_percentage = 2\<rparr>)]"
    by (simp add: markdown_go_stats_def exclude_languages_def)
  from primary_language_selection [OF e] f e show ?thesis
    by auto
qed

section \<open>Manifests that cannot be read or parsed\<close>

lemma unreadable_results:
  assumes "read_text env p = Inl e"
  shows "extract_java_version_from_gradle env p = Inr None"
    and "extract_go_version env p = Inr None"
    and "extract_python_version_from_pyproject env p = Inr None"
    and "extract_node_version env p = Inr None"
    and "analyze_package_json env p = Inr []"
    and "analyze_requirements_txt env p = Inr []"
    and "analyze_pyproject_toml env p = Inr []"
    and "analyze_gradle env p = Inr []"
    and "analyze_go_mod env p = Inr []"
  by (simp_all add: assms extract_java_version_from_gradle_def extract_go_version_def
        extract_python_version_from_pyproject_def extract_node_version_def
        analyze_package_json_def analyze_requirements_txt_def analyze_pyproject_toml_def
        analyze_gradle_def analyze_go_mod_def)

lemma malformed_json_results:
  assumes "read_text env p = Inr content" and "json_loads env content = Inl e"
  shows "analyze_package_json env p = Inr []" and "extract_node_version env p = Inr None"
  by (simp_all add: assms analyze_package_json_def extract_node_version_def)

lemma not_an_object_results:
  assumes "read_text env p = Inr content" and "json_loads env content = Inr (JArray xs)"
  shows "analyze_package_json env p = Inr []" and "extract_node_version env p = Inr None"
  by (simp_all add: assms analyze_package_json_def extract_node_version_def json_get_def)

lemma malformed_xml_results:
  assumes "et_parse env p = Inl e"
  shows "analyze_pom_xml env p = Inr []" and "extract_java_version_from_pom env p = Inr None"
  by (simp_all add: assms analyze_pom_xml_def extract_java_version_from_pom_def)

lemma no_match_results:
  assumes "read_text env p = Inr content"
  shows "re_search match_go_directive content = None \<Longrightarrow> extract_go_version env p = Inr None"
    and "names_where [(''gin-gonic/gin'', ''Gin''), (''gorilla/mux'', ''Gorilla Mux''),
              (''labstack/echo'', ''Echo''), (''fiber'', ''Fiber''), (''gorm.io/gorm'', ''GORM''),
              (''go-chi/chi'', ''Chi'')] (\<lambda>framework_key. contains content framework_key) = []
         \<Longrightarrow> analyze_go_mod env p = Inr []"
  by (simp_all add: assms extract_go_version_def analyze_go_mod_def)

text \<open>
  C7. Every manifest parser returns a value for every file system and every path, and
  raises nothing: when the file cannot be read, when \<open>json.load\<close> rejects its content or
  yields something that is not an object, when the XML parser rejects it, or when no
  pattern matches, the value is the empty framework set or no version. The whole
  detection therefore returns a profile for every file list.
\<close>

theorem manifest_parsers_never_raise:
  "(\<exists>v. extract_java_version_from_pom env p = Inr v)
   \<and> (\<exists>v. extract_java_version_from_gradle env p = Inr v)
   \<and> (\<exists>v. extract_go_version env p = Inr v)
   \<and> (\<exists>v. extract_python_version_from_pyproject env p = Inr v)
   \<and> (\<exists>v. extract_node_version env p = Inr v)
   \<and> (\<exists>v. analyze_package_json env p = Inr v)
   \<and> (\<exists>v. analyze_requirements_txt env p = Inr v)
   \<and> (\<exists>v. analyze_pyproject_toml env p = Inr v)
   \<and> (\<exists>v. analyze_pom_xml env p = Inr v)
   \<and> (\<exists>v. analyze_gradle env p = Inr v)
   \<and> (\<exists>v. analyze_go_mod env p = Inr v)
   \<and> (\<forall>e. read_text env p = Inl e \<longrightarrow>
          extract_java_version_from_gradle env p = Inr None \<and> extract_go_version env p = Inr None \<and>
          extract_python_version_from_pyproject env p = Inr None \<and>
          extract_node_version env p = Inr None \<and>
          analyze_package_json env p = Inr [] \<and> analyze_requirements_txt env p = Inr [] \<and>
          analyze_pyproject_toml env p = Inr [] \<and> analyze_gradle env p = Inr [] \<and>
          analyze_go_mod env p = Inr [])
   \<and> (\<forall>content e. read_text env p = Inr content \<and> json_loads env content = Inl e \<longrightarrow>
          analyze_package_json env p = Inr [] \<and> extract_node_version env p = Inr None)
   \<and> (\<forall>content xs. read_text env p = Inr content \<and> json_loads env content = Inr (JArray xs) \<longrightarrow>
          analyze_package_json env p = Inr [] \<and> extract_node_version env p = Inr None)
   \<and> (\<forall>e. et_parse env p = Inl e \<longrightarrow>
          analyze_pom_xml env p = Inr [] \<and> extract_java_version_from_pom env p = Inr None)
   \<and> (\<forall>content. read_text env p = Inr content \<and> re_search match_go_directive content = None \<longrightarrow>
          extract_go_version env p = Inr None)
   \<and> (\<exists>ts. detect_tech_stack env file_structure project_dir = Inr ts)"
proof -
  note t = extract_total [of env p] analyze_total [of env p] analyze_pom_xml_total [of env p]
  have u: "\<forall>e. read_text env p = Inl e \<longrightarrow>
          extract_java_version_from_gradle env p = Inr None \<and> extract_go_version env p = Inr None \<and>
          extract_python_version_from_pyproject env p = Inr None \<and>
          extract_node_version env p = Inr None \<and>
          analyze_package_json env p = Inr [] \<and> analyze_requirements_txt env p = Inr [] \<and>
          analyze_pyproject_toml env p = Inr [] \<and> analyze_gradle env p = Inr [] \<and>
          analyze_go_mod env p = Inr []"
    by (intro allI impI conjI) (erule unreadable_results)+
  have j: "\<forall>content e. read_text env p = Inr content \<and> json_loads env content = Inl e \<longrightarrow>
          analyze_package_json env p = Inr [] \<and> extract_node_version env p = Inr None"
    using malformed_json_results [of env p] by blast
  have a: "\<forall>content xs. read_text env p = Inr content \<and> json_loads env content = Inr (JArray xs) \<longrightarrow>
          analyze_package_json env p = Inr [] \<and> extract_node_version env p = Inr None"
    using not_an_object_results [of env p] by blast
  have x: "\<forall>e. et_parse env p = Inl e \<longrightarrow>
          analyze_pom_xml env p = Inr [] \<and> extract_java_version_from_pom env p = Inr None"
    using malformed_xml_results [of env p] by blast
  have n: "\<forall>content. read_text env p = Inr content \<and> re_search match_go_directive content = None \<longrightarrow>
          extract_go_version env p = Inr None"
    using no_match_results(1) [of env p] by blast
  note d = detect_tech_stack_total [of env file_structure project_dir]
  show ?thesis
    by (intro conjI t u j a x n d)
qed

theorem manifest_parsers_never_raise_witness:
  "read_text unreadable_env ''/repo/package.json'' = Inl UnicodeDecodeError
   \<and> analyze_package_json unreadable_env ''/repo/package.json'' = Inr []
   \<and> extract_go_version unreadable_env ''/repo/package.json'' = Inr None
   \<and> read_text malformed_env ''/repo/pom.xml'' = Inr ''{ <name: ''
   \<and> json_loads malformed_env ''{ <name: '' = Inl JSONDecodeError
   \<and> analyze_package_json malformed_env ''/repo/pom.xml'' = Inr []
   \<and> extract_node_version malformed_env ''/repo/pom.xml'' = Inr None
   \<and> et_parse malformed_env ''/repo/pom.xml'' = Inl ParseError
   \<and> analyze_pom_xml malformed_env ''/repo/pom.xml'' = Inr []
   \<and> extract_java_version_from_pom malformed_env ''/repo/pom.xml'' = Inr None
   \<and> (\<exists>ts. detect_tech_stack malformed_env go_repo_files (Some ''/repo'') = Inr ts)"
proof -
  have u: "read_text unreadable_env ''/repo/package.json'' = Inl UnicodeDecodeError"
    by (simp add: unreadable_env_def)
  have m: "read_text malformed_env ''/repo/pom.xml'' = Inr ''{ <name: ''"
    "json_loads malformed_env ''{ <name: '' = Inl JSONDecodeError"
    "et_parse malformed_env ''/repo/pom.xml'' = Inl ParseError"
    by (simp_all add: malformed_env_def)
  have 1: "analyze_package_json unreadable_env ''/repo/package.json'' = Inr []
      \<and> extract_go_version unreadable_env ''/repo/package.json'' = Inr None"
    using manifest_parsers_never_raise
      [of unreadable_env "''/repo/package.json''" go_repo_files "Some ''/repo''"] u
    by simp
  have 2: "analyze_package_json malformed_env ''/repo/pom.xml'' = Inr []
      \<and> extract_node_version malformed_env ''/repo/pom.xml'' = Inr None
      \<and> analyze_pom_xml malformed_env ''/repo/pom.xml'' = Inr []
      \<and> extract_java_version_from_pom malformed_env ''/repo/pom.xml'' = Inr None
      \<and> (\<exists>ts. detect_tech_stack malformed_env go_repo_files (Some ''/repo'') = Inr ts)"
    using manifest_parsers_never_raise
      [of malformed_env "''/repo/pom.xml''" go_repo_files "Some ''/repo''"] m
    by simp
  from 1 2 u m show ?thesis by simp
qed


end
